theory Spec2Isabelle
  imports Main
begin

section \<open>Values and helpers shared by both versions of the server\<close>

text \<open>
  The repository holds two versions of the pairing server: \<^verbatim>\<open>src/server.js\<close>, which waits
  a fixed three seconds and then asks the Transport for a pairing code, and
  \<^verbatim>\<open>src/unnamed/part_000\<close>, which asks from inside the connection-event handler and waits for
  the answer with a thirty-second deadline. The second one is embedded first, under the
  source's names; the definitions of the first one carry the prefix \<open>srv_\<close>.

  Calls into the Transport library, the file system and the clock are external. Whatever
  such a call may answer is read from a record \<open>env\<close> handed to every operation, so that a
  theorem about an operation holds for every answer of the outside world unless it says
  otherwise.
\<close>

text \<open>The \<^verbatim>\<open>number\<close> property of a JSON request body, as far as the handler looks at it.\<close>

datatype jsval = JUndefined | JNull | JBool bool | JNum int | JStr string | JObject

fun truthy :: "jsval \<Rightarrow> bool" where
  "truthy JUndefined = False"
| "truthy JNull = False"
| "truthy (JBool b) = b"
| "truthy (JNum n) = (n \<noteq> 0)"
| "truthy (JStr s) = (s \<noteq> [])"
| "truthy JObject = True"

definition is_digit :: "char \<Rightarrow> bool" where
  "is_digit c = (c \<in> set ''0123456789'')"

text \<open>\<^verbatim>\<open>number.replace(/\D/g, "")\<close>\<close>

definition normalize :: "string \<Rightarrow> string" where
  "normalize s = filter is_digit s"

text \<open>\<^verbatim>\<open>path.join(__dirname, "sessions", normalizedNumber)\<close>, relative to \<^verbatim>\<open>__dirname\<close>.\<close>

definition session_path :: "string \<Rightarrow> string" where
  "session_path n = ''sessions/'' @ n"

text \<open>
  The three members of the Transport library's \<^verbatim>\<open>DisconnectReason\<close> table that the
  handlers compare against. The table is not part of the repository, so it is a parameter.
\<close>

record disconnect_reason =
  loggedOut :: int
  forbidden :: int
  connectionReplaced :: int

datatype conn_status = Connecting | Open | Close

text \<open>
  A \<^verbatim>\<open>connection.update\<close> event: \<^verbatim>\<open>update.connection\<close>,
  \<^verbatim>\<open>update.lastDisconnect?.error?.output?.statusCode\<close> and \<^verbatim>\<open>update.qr\<close>, each possibly
  undefined.
\<close>

record update =
  connection :: "conn_status option"
  statusCode :: "int option"
  qr :: "string option"

text \<open>What the awaited \<^verbatim>\<open>conn.requestPairingCode\<close> does: return a code, reject, or never settle.\<close>

datatype reply = Code string | Failed string | NoReply

text \<open>
  The answers of the outside world during one turn: \<open>now\<close> is \<^verbatim>\<open>Date.now()\<close>, \<open>registered\<close>
  is \<^verbatim>\<open>conn.authState.creds.registered\<close> as the handler reads it, \<open>pairing_reply\<close> is what
  the awaited pairing request does, \<open>readyState\<close> is \<^verbatim>\<open>conn.ws.readyState\<close> of the socket a
  status request looks at. The flags say that a call throws or rejects when it is reached:
  \<^verbatim>\<open>fs.rmSync\<close>, \<^verbatim>\<open>fs.mkdirSync\<close>, one of \<^verbatim>\<open>useMultiFileAuthState\<close>,
  \<^verbatim>\<open>fetchLatestBaileysVersion\<close> and \<^verbatim>\<open>makeWASocket\<close>, \<^verbatim>\<open>ws.close\<close>, \<^verbatim>\<open>conn.logout\<close>,
  \<^verbatim>\<open>zipSessionFolder\<close>, reading and sending the zip file, \<^verbatim>\<open>fs.unlinkSync\<close>, and the
  library's \<^verbatim>\<open>saveCreds\<close>; \<open>err_msg\<close> is the message of the error thrown.
\<close>

record env =
  now :: int
  registered :: bool
  pairing_reply :: reply
  readyState :: nat
  rm_throws :: bool
  mkdir_throws :: bool
  init_throws :: bool
  close_throws :: bool
  logout_rejects :: bool
  zip_fails :: bool
  send_fails :: bool
  unlink_throws :: bool
  save_fails :: bool
  err_msg :: string

section \<open>The event-driven server (part_000)\<close>

text \<open>The value stored in \<^verbatim>\<open>activeConnections\<close>; \<^verbatim>\<open>conn\<close> is the handle of a socket.\<close>

record connection_entry =
  conn :: nat
  sessionDir :: string
  timestamp :: int

datatype settled = RCode string | RError string

datatype promise = Pending | Resolved settled | Rejected string

text \<open>
  What the model keeps for one object returned by \<^verbatim>\<open>makeWASocket\<close>: the variables captured
  by the closures created for it (\<open>req_number\<close> is \<^verbatim>\<open>req.body.number\<close>, \<open>h_number\<close> and
  \<open>h_dir\<close> are the handler's \<^verbatim>\<open>normalizedNumber\<close> and \<^verbatim>\<open>sessionDir\<close>), the two latches of
  \<^verbatim>\<open>setupConnectionHandlers\<close>, the promise the request handler awaits (\<open>awaiting\<close> says
  that the handler has not resumed yet), and counters: \<open>requests\<close> counts the calls of
  \<^verbatim>\<open>conn.requestPairingCode\<close>, \<open>deliveries\<close> the delivery timers set and \<open>delivery_runs\<close>
  the ones that have fired, \<open>ws_closes\<close> and \<open>logouts\<close> the calls of \<^verbatim>\<open>conn.ws.close\<close> and
  \<^verbatim>\<open>conn.logout\<close> that returned. Every socket is taken to have its \<^verbatim>\<open>ws\<close> property, as the
  sockets of the library do.
\<close>

record session =
  req_number :: string
  h_number :: string
  h_dir :: string
  credsSent :: bool
  pairingCodeRequested :: bool
  pairingCodePromise :: promise
  awaiting :: bool
  requests :: nat
  deliveries :: nat
  delivery_runs :: nat
  ws_closes :: nat
  logouts :: nat

text \<open>
  The state of the server and of what it acts on: the registry, the directories that
  exist with the names of the files in them, the zip files that exist, the sockets made so
  far (a handle is an index into this list) and the messages sent.
\<close>

record world =
  activeConnections :: "string \<rightharpoonup> connection_entry"
  dirs :: "string \<rightharpoonup> string list"
  zips :: "string set"
  sockets :: "session list"
  outbox :: "string list"

definition init_world :: world where
  "init_world = \<lparr>activeConnections = Map.empty, dirs = Map.empty, zips = {},
     sockets = [], outbox = []\<rparr>"

definition new_session :: "string \<Rightarrow> string \<Rightarrow> string \<Rightarrow> session" where
  "new_session raw n d = \<lparr>req_number = raw, h_number = n, h_dir = d, credsSent = False,
     pairingCodeRequested = False, pairingCodePromise = Pending, awaiting = True,
     requests = 0, deliveries = 0, delivery_runs = 0, ws_closes = 0, logouts = 0\<rparr>"

definition existsSync :: "string \<Rightarrow> world \<Rightarrow> bool" where
  "existsSync d w = (dirs w d \<noteq> None)"

text \<open>\<^verbatim>\<open>fs.rmSync(d, {recursive: true, force: true})\<close> when it does not throw.\<close>

definition rmSync :: "string \<Rightarrow> world \<Rightarrow> world" where
  "rmSync d w = w\<lparr>dirs := (dirs w)(d := None)\<rparr>"

text \<open>\<^verbatim>\<open>fs.mkdirSync(d, {recursive: true})\<close> when it does not throw: an existing directory is kept.\<close>

definition mkdirSync :: "string \<Rightarrow> world \<Rightarrow> world" where
  "mkdirSync d w = (if existsSync d w then w else w\<lparr>dirs := (dirs w)(d \<mapsto> [])\<rparr>)"

definition registry_delete :: "string \<Rightarrow> world \<Rightarrow> world" where
  "registry_delete n w = w\<lparr>activeConnections := (activeConnections w)(n := None)\<rparr>"

definition upd_socket :: "nat \<Rightarrow> (session \<Rightarrow> session) \<Rightarrow> world \<Rightarrow> world" where
  "upd_socket c f w = w\<lparr>sockets := (sockets w)[c := f (sockets w ! c)]\<rparr>"

definition ws_close :: "nat \<Rightarrow> world \<Rightarrow> world" where
  "ws_close c w = upd_socket c (\<lambda>s. s\<lparr>ws_closes := Suc (ws_closes s)\<rparr>) w"

text \<open>The promise settles once: a later resolve or reject is ignored.\<close>

definition settle :: "promise \<Rightarrow> promise \<Rightarrow> promise" where
  "settle p q = (case p of Pending \<Rightarrow> q | _ \<Rightarrow> p)"

definition terminal :: "disconnect_reason \<Rightarrow> int option \<Rightarrow> bool" where
  "terminal R sc = (sc = Some (loggedOut R) \<or> sc = Some (forbidden R)
     \<or> sc = Some (connectionReplaced R))"

definition qr_truthy :: "update \<Rightarrow> bool" where
  "qr_truthy u = (case qr u of None \<Rightarrow> False | Some q \<Rightarrow> q \<noteq> [])"

text \<open>The guard of the pairing request in the handler, line 75.\<close>

definition wants_pairing :: "update \<Rightarrow> env \<Rightarrow> session \<Rightarrow> bool" where
  "wants_pairing u e s = ((connection u = Some Connecting \<or> qr_truthy u)
     \<and> \<not> pairingCodeRequested s \<and> \<not> registered e)"

text \<open>
  The second half of the handler, lines 99 to 129: the close, open and connecting branches.
  When \<^verbatim>\<open>fs.rmSync\<close> throws, the handler ends before \<^verbatim>\<open>activeConnections.delete\<close>.
\<close>

definition state_branch :: "disconnect_reason \<Rightarrow> nat \<Rightarrow> update \<Rightarrow> env \<Rightarrow> world \<Rightarrow> world" where
  "state_branch R c u e w =
     (let s = sockets w ! c in
      case connection u of
        Some Close \<Rightarrow>
          if terminal R (statusCode u) then
            if existsSync (h_dir s) w then
              if rm_throws e then w
              else registry_delete (h_number s) (rmSync (h_dir s) w)
            else registry_delete (h_number s) w
          else w
      | Some Open \<Rightarrow>
          if \<not> credsSent s then
            upd_socket c (\<lambda>s. s\<lparr>credsSent := True, deliveries := Suc (deliveries s)\<rparr>) w
          else w
      | _ \<Rightarrow> w)"

text \<open>
  The \<^verbatim>\<open>connection.update\<close> handler installed by \<^verbatim>\<open>setupConnectionHandlers\<close> for socket
  \<open>c\<close>. The latch is set before the awaited call; the callback resolves the promise of the
  request handler; with \<open>NoReply\<close> the handler never resumes, so its second half is not run.
\<close>

definition connection_update :: "disconnect_reason \<Rightarrow> nat \<Rightarrow> update \<Rightarrow> env \<Rightarrow> world \<Rightarrow> world" where
  "connection_update R c u e w =
     (if c < length (sockets w) then
        if wants_pairing u e (sockets w ! c) then
          let w1 = upd_socket c
                (\<lambda>s. s\<lparr>pairingCodeRequested := True, requests := Suc (requests s)\<rparr>) w
          in case pairing_reply e of
               NoReply \<Rightarrow> w1
             | Code code \<Rightarrow>
                 state_branch R c u e (upd_socket c (\<lambda>s. s\<lparr>pairingCodePromise :=
                   settle (pairingCodePromise s) (Resolved (RCode code))\<rparr>) w1)
             | Failed msg \<Rightarrow>
                 state_branch R c u e (upd_socket c (\<lambda>s. s\<lparr>pairingCodePromise :=
                   settle (pairingCodePromise s) (Resolved (RError msg))\<rparr>) w1)
        else state_branch R c u e w
      else w)"

text \<open>
  \<^verbatim>\<open>sendCredsToUser\<close>: every failure is caught and turned into the result \<^verbatim>\<open>false\<close>. The zip
  file is \<^verbatim>\<open>sessionDir + ".zip"\<close>; it stays behind when sending or unlinking fails.
\<close>

definition sendCredsToUser :: "nat \<Rightarrow> env \<Rightarrow> world \<Rightarrow> bool \<times> world" where
  "sendCredsToUser c e w =
     (let s = sockets w ! c; zipPath = h_dir s @ ''.zip'';
          userJid = h_number s @ ''@s.whatsapp.net'' in
      if zip_fails e then (False, w)
      else
        let w1 = w\<lparr>zips := insert zipPath (zips w)\<rparr> in
        if send_fails e then (False, w1)
        else
          let w2 = w1\<lparr>outbox := outbox w1 @ [userJid]\<rparr> in
          if unlink_throws e then (False, w2)
          else (True, w2\<lparr>zips := zips w2 - {zipPath}\<rparr>))"

text \<open>
  The \<^verbatim>\<open>creds.update\<close> handler is the library's \<^verbatim>\<open>saveCreds\<close>, which writes the file
  \<^verbatim>\<open>creds.json\<close> into the folder given to \<^verbatim>\<open>useMultiFileAuthState\<close>; it fails when the
  folder is gone.
\<close>

definition saveCreds :: "nat \<Rightarrow> env \<Rightarrow> world \<Rightarrow> world" where
  "saveCreds c e w =
     (if c < length (sockets w) then
        case dirs w (h_dir (sockets w ! c)) of
          None \<Rightarrow> w
        | Some fs \<Rightarrow>
            if save_fails e then w
            else w\<lparr>dirs := (dirs w)(h_dir (sockets w ! c) \<mapsto> List.insert ''creds.json'' fs)\<rparr>
      else w)"

text \<open>
  The responses of the endpoints, by what they carry: \<open>BadRequest error\<close> (status 400),
  \<open>PairingCode pairingCode phoneNumber\<close> (the success of a registration; the code is
  undefined when the promise resolved without one), \<open>ServerError error details\<close> (status
  500), \<open>StatusNotFound\<close> and \<open>StatusFound connected state timestamp uptime\<close> (the status
  request of part_000), \<open>SrvStatus connected state\<close> (the status request of server.js, with
  no state when nothing is registered), \<open>SessionNotFound\<close> (status 404) and
  \<open>Download zipPath\<close> (the download request), \<open>Message message\<close>, and \<open>Disconnected\<close> (the
  success of the disconnect request of part_000).
\<close>

datatype response =
    BadRequest string
  | PairingCode "string option" string
  | ServerError string string
  | StatusNotFound
  | StatusFound bool string int int
  | SrvStatus bool "string option"
  | SessionNotFound
  | Download string
  | Message string
  | Disconnected

datatype progress = Responded response | Awaiting nat

definition invalid_format :: string where
  "invalid_format = ''Invalid phone number format. Include country code (e.g., 2348109860102)''"

definition pair_failed :: "string \<Rightarrow> response" where
  "pair_failed details = ServerError ''Failed to generate pairing code'' details"

text \<open>
  \<^verbatim>\<open>app.post("/api/pair")\<close> up to its first response or up to the wait for the promise. An
  exception before \<^verbatim>\<open>conn\<close> is assigned reaches the catch block with \<^verbatim>\<open>conn\<close> undefined, so
  nothing is cleaned up.
\<close>

definition pair_start :: "jsval \<Rightarrow> env \<Rightarrow> world \<Rightarrow> progress \<times> world" where
  "pair_start number e w =
     (if \<not> truthy number then (Responded (BadRequest ''Phone number is required''), w)
      else case number of
        JStr raw \<Rightarrow>
          let normalizedNumber = normalize raw in
          if length normalizedNumber < 10 then
            (Responded (BadRequest invalid_format), w)
          else
            let d = session_path normalizedNumber in
            if existsSync d w \<and> rm_throws e then (Responded (pair_failed (err_msg e)), w)
            else
              let w1 = (if existsSync d w then rmSync d w else w) in
              if mkdir_throws e then (Responded (pair_failed (err_msg e)), w1)
              else
                let w2 = mkdirSync d w1 in
                if init_throws e then (Responded (pair_failed (err_msg e)), w2)
                else
                  let c = length (sockets w2) in
                  (Awaiting c,
                   w2\<lparr>sockets := sockets w2 @ [new_session raw normalizedNumber d],
                      activeConnections := (activeConnections w2)(normalizedNumber \<mapsto>
                        \<lparr>conn = c, sessionDir = d, timestamp = now e\<rparr>)\<rparr>)
      | _ \<Rightarrow> (Responded (pair_failed ''number.replace is not a function''), w))"

text \<open>The thirty-second timer of the request that created socket \<open>c\<close>.\<close>

definition pair_timeout :: "nat \<Rightarrow> world \<Rightarrow> world" where
  "pair_timeout c w =
     (if c < length (sockets w) then
        upd_socket c (\<lambda>s. s\<lparr>pairingCodePromise :=
          settle (pairingCodePromise s) (Rejected ''Pairing code request timeout'')\<rparr>) w
      else w)"

text \<open>
  The cleanup inside the catch block, lines 233 to 251, for a request that has created
  socket \<open>c\<close>. An exception inside it is caught and logged; the statements after the
  throwing one are skipped.
\<close>

definition rollback :: "nat \<Rightarrow> env \<Rightarrow> world \<Rightarrow> world" where
  "rollback c e w =
     (let normalizedNumber = normalize (req_number (sockets w ! c)) in
      if normalizedNumber = [] then w
      else
        let d = session_path normalizedNumber in
        if existsSync d w \<and> rm_throws e then w
        else
          let w1 = (if existsSync d w then rmSync d w else w) in
          if close_throws e then w1
          else registry_delete normalizedNumber (ws_close c w1))"

text \<open>
  The request handler after \<^verbatim>\<open>await pairingCodePromise\<close>: \<open>None\<close> while the promise is
  pending (or when no request waits on socket \<open>c\<close>), otherwise the response and the new world.
\<close>

definition pair_resume :: "nat \<Rightarrow> env \<Rightarrow> world \<Rightarrow> (response \<times> world) option" where
  "pair_resume c e w =
     (if c < length (sockets w) \<and> awaiting (sockets w ! c) then
        let s = sockets w ! c;
            w0 = upd_socket c (\<lambda>s. s\<lparr>awaiting := False\<rparr>) w in
        case pairingCodePromise s of
          Pending \<Rightarrow> None
        | Resolved (RCode code) \<Rightarrow> Some (PairingCode (Some code) (h_number s), w0)
        | Resolved (RError msg) \<Rightarrow>
            if msg \<noteq> [] then Some (pair_failed msg, rollback c e w0)
            else Some (PairingCode None (h_number s), w0)
        | Rejected msg \<Rightarrow> Some (pair_failed msg, rollback c e w0)
      else None)"

text \<open>\<^verbatim>\<open>app.get("/api/status/:number")\<close>\<close>

definition status :: "string \<Rightarrow> env \<Rightarrow> world \<Rightarrow> response" where
  "status p e w =
     (case activeConnections w (normalize p) of
        None \<Rightarrow> StatusNotFound
      | Some k \<Rightarrow>
          let isOpen = (readyState e = 1) in
          StatusFound isOpen (if isOpen then ''open'' else ''closed'')
            (timestamp k) (now e - timestamp k))"

text \<open>
  \<^verbatim>\<open>app.get("/api/download-creds/:number")\<close>: the zip file is removed again only when the
  download went through.
\<close>

definition download_creds :: "string \<Rightarrow> env \<Rightarrow> world \<Rightarrow> response \<times> world" where
  "download_creds p e w =
     (case activeConnections w (normalize p) of
        None \<Rightarrow> (SessionNotFound, w)
      | Some k \<Rightarrow>
          if zip_fails e then (ServerError (err_msg e) [], w)
          else
            let zipPath = sessionDir k @ ''.zip'';
                w1 = w\<lparr>zips := insert zipPath (zips w)\<rparr> in
            if send_fails e \<or> unlink_throws e then (Download zipPath, w1)
            else (Download zipPath, w1\<lparr>zips := zips w1 - {zipPath}\<rparr>))"

text \<open>\<^verbatim>\<open>app.delete("/api/disconnect/:number")\<close>\<close>

definition disconnect :: "string \<Rightarrow> env \<Rightarrow> world \<Rightarrow> response \<times> world" where
  "disconnect p e w =
     (let normalizedNumber = normalize p in
      case activeConnections w normalizedNumber of
        None \<Rightarrow> (Message ''No active connection found'', w)
      | Some k \<Rightarrow>
          if logout_rejects e then (ServerError (err_msg e) [], w)
          else
            let w1 = upd_socket (conn k) (\<lambda>s. s\<lparr>logouts := Suc (logouts s)\<rparr>) w in
            if close_throws e then (ServerError (err_msg e) [], w1)
            else
              let w2 = registry_delete normalizedNumber (ws_close (conn k) w1) in
              if existsSync (sessionDir k) w2 then
                if rm_throws e then (ServerError (err_msg e) [], w2)
                else (Disconnected, rmSync (sessionDir k) w2)
              else (Disconnected, w2))"

section \<open>Interleavings of the event-driven server\<close>

text \<open>
  The scheduled delivery (the two-second timer set by the first \<^verbatim>\<open>open\<close> event) runs
  \<^verbatim>\<open>sendCredsToUser\<close> and drops its result. It can run only as often as it was scheduled.
\<close>

definition deliver :: "nat \<Rightarrow> env \<Rightarrow> world \<Rightarrow> world" where
  "deliver c e w =
     (if c < length (sockets w) \<and> delivery_runs (sockets w ! c) < deliveries (sockets w ! c)
      then snd (sendCredsToUser c e
             (upd_socket c (\<lambda>s. s\<lparr>delivery_runs := Suc (delivery_runs s)\<rparr>) w))
      else w)"

text \<open>
  What can happen to the server, one event-loop turn at a time: a request arrives, a
  timer fires, a promise continuation runs, the Transport emits an event. The status
  request changes nothing and is not a turn; the shutdown handler ends the process and
  with it every run.
\<close>

datatype action =
    PairRequest jsval
  | PairTimeout nat
  | PairResume nat
  | ConnectionUpdate nat update
  | CredsUpdate nat
  | Deliver nat
  | DownloadRequest string
  | DisconnectRequest string

fun step :: "disconnect_reason \<Rightarrow> action \<times> env \<Rightarrow> world \<Rightarrow> world" where
  "step R (PairRequest number, e) w = snd (pair_start number e w)"
| "step R (PairTimeout c, e) w = pair_timeout c w"
| "step R (PairResume c, e) w = (case pair_resume c e w of None \<Rightarrow> w | Some (r, w') \<Rightarrow> w')"
| "step R (ConnectionUpdate c u, e) w = connection_update R c u e w"
| "step R (CredsUpdate c, e) w = saveCreds c e w"
| "step R (Deliver c, e) w = deliver c e w"
| "step R (DownloadRequest p, e) w = snd (download_creds p e w)"
| "step R (DisconnectRequest p, e) w = snd (disconnect p e w)"

fun run :: "disconnect_reason \<Rightarrow> (action \<times> env) list \<Rightarrow> world \<Rightarrow> world" where
  "run R [] w = w"
| "run R (a # as) w = run R as (step R a w)"

text \<open>
  The facts every socket of a reachable world satisfies: the closure variables are the
  ones the request handler computed, and each counter follows its latch.
\<close>

definition wf_session :: "session \<Rightarrow> bool" where
  "wf_session s = (10 \<le> length (normalize (req_number s))
     \<and> h_number s = normalize (req_number s)
     \<and> h_dir s = session_path (h_number s)
     \<and> requests s = (if pairingCodeRequested s then 1 else 0)
     \<and> deliveries s = (if credsSent s then 1 else 0)
     \<and> delivery_runs s \<le> deliveries s)"

definition wf_world :: "world \<Rightarrow> bool" where
  "wf_world w = list_all wf_session (sockets w)"

text \<open>Values of the outside world in which nothing fails, and the library's status codes.\<close>

definition calm :: env where
  "calm = \<lparr>now = 1000, registered = False, pairing_reply = Code ''ABC-123'', readyState = 1,
     rm_throws = False, mkdir_throws = False, init_throws = False, close_throws = False,
     logout_rejects = False, zip_fails = False, send_fails = False, unlink_throws = False,
     save_fails = False, err_msg = ''boom''\<rparr>"

definition baileys :: disconnect_reason where
  "baileys = \<lparr>loggedOut = 401, forbidden = 403, connectionReplaced = 440\<rparr>"


text \<open>The settled promise makes the request handler throw.\<close>

definition fails :: "promise \<Rightarrow> bool" where
  "fails p = (case p of Pending \<Rightarrow> False | Resolved (RCode code) \<Rightarrow> False
     | Resolved (RError msg) \<Rightarrow> msg \<noteq> [] | Rejected msg \<Rightarrow> True)"

text \<open>
  The turns that can take identity \<open>n\<close> out of the registry: a close event with a terminal
  status on a socket created for \<open>n\<close>, a disconnect request for \<open>n\<close>, and the failure of a
  registration request for \<open>n\<close>.
\<close>

fun removes :: "disconnect_reason \<Rightarrow> string \<Rightarrow> world \<Rightarrow> action \<Rightarrow> bool" where
  "removes R n w (ConnectionUpdate c u) =
     (c < length (sockets w) \<and> h_number (sockets w ! c) = n
      \<and> connection u = Some Close \<and> terminal R (statusCode u))"
| "removes R n w (DisconnectRequest p) = (normalize p = n)"
| "removes R n w (PairResume c) =
     (c < length (sockets w) \<and> normalize (req_number (sockets w ! c)) = n
      \<and> fails (pairingCodePromise (sockets w ! c)))"
| "removes R n w (PairRequest number) = False"
| "removes R n w (PairTimeout c) = False"
| "removes R n w (CredsUpdate c) = False"
| "removes R n w (Deliver c) = False"
| "removes R n w (DownloadRequest p) = False"

fun quiet :: "disconnect_reason \<Rightarrow> string \<Rightarrow> (action \<times> env) list \<Rightarrow> world \<Rightarrow> bool" where
  "quiet R n [] w = True"
| "quiet R n (ae # tr) w = (\<not> removes R n w (fst ae) \<and> quiet R n tr (step R ae w))"

text \<open>Every event delivered to the handler of socket \<open>c\<close> finds the credentials registered.\<close>

fun restored :: "nat \<Rightarrow> (action \<times> env) list \<Rightarrow> bool" where
  "restored c [] = True"
| "restored c ((ConnectionUpdate c' u, e) # tr) = ((c' = c \<longrightarrow> registered e) \<and> restored c tr)"
| "restored c (ae # tr) = restored c tr"

section \<open>The settle-timer server (server.js)\<close>

text \<open>
  This version stores \<^verbatim>\<open>{conn, saveCreds}\<close> in the registry, keeps the issued codes in
  \<^verbatim>\<open>pairingCodes\<close>, has no latch and no deadline, and computes the session directory from
  the number wherever it needs it.
\<close>

record srv_socket =
  srv_number :: string
  srv_waiting :: bool
  srv_requests :: nat
  srv_ws_closes :: nat
  srv_logouts :: nat

record srv_world =
  srv_activeConnections :: "string \<rightharpoonup> nat"
  srv_pairingCodes :: "string \<rightharpoonup> string \<times> int"
  srv_dirs :: "string \<rightharpoonup> string list"
  srv_sockets :: "srv_socket list"

definition srv_upd_socket :: "nat \<Rightarrow> (srv_socket \<Rightarrow> srv_socket) \<Rightarrow> srv_world \<Rightarrow> srv_world" where
  "srv_upd_socket c f w = w\<lparr>srv_sockets := (srv_sockets w)[c := f (srv_sockets w ! c)]\<rparr>"

text \<open>The \<^verbatim>\<open>connection.update\<close> handler of server.js, lines 45 to 72.\<close>

definition srv_connection_update ::
  "disconnect_reason \<Rightarrow> nat \<Rightarrow> update \<Rightarrow> env \<Rightarrow> srv_world \<Rightarrow> srv_world" where
  "srv_connection_update R c u e w =
     (if c < length (srv_sockets w) then
        let normalizedNumber = srv_number (srv_sockets w ! c) in
        case connection u of
          Some Close \<Rightarrow>
            if terminal R (statusCode u) then
              let d = session_path normalizedNumber in
              if srv_dirs w d \<noteq> None then
                if rm_throws e then w
                else w\<lparr>srv_dirs := (srv_dirs w)(d := None),
                       srv_activeConnections := (srv_activeConnections w)(normalizedNumber := None)\<rparr>
              else w\<lparr>srv_activeConnections := (srv_activeConnections w)(normalizedNumber := None)\<rparr>
            else w
        | _ \<Rightarrow> w
      else w)"

text \<open>\<^verbatim>\<open>app.post("/api/pair")\<close> of server.js up to the three-second wait.\<close>

definition srv_pair_start :: "jsval \<Rightarrow> env \<Rightarrow> srv_world \<Rightarrow> progress \<times> srv_world" where
  "srv_pair_start number e w =
     (if \<not> truthy number then (Responded (BadRequest ''Phone number is required''), w)
      else case number of
        JStr raw \<Rightarrow>
          let normalizedNumber = normalize raw in
          if length normalizedNumber < 10 then
            (Responded (BadRequest invalid_format), w)
          else
            let d = session_path normalizedNumber in
            if srv_dirs w d \<noteq> None \<and> rm_throws e then (Responded (pair_failed (err_msg e)), w)
            else
              let w1 = (if srv_dirs w d \<noteq> None then w\<lparr>srv_dirs := (srv_dirs w)(d := None)\<rparr> else w) in
              if mkdir_throws e then (Responded (pair_failed (err_msg e)), w1)
              else
                let w2 = (if srv_dirs w1 d \<noteq> None then w1
                          else w1\<lparr>srv_dirs := (srv_dirs w1)(d \<mapsto> [])\<rparr>) in
                if init_throws e then (Responded (pair_failed (err_msg e)), w2)
                else
                  let c = length (srv_sockets w2) in
                  (Awaiting c,
                   w2\<lparr>srv_sockets := srv_sockets w2 @
                        [\<lparr>srv_number = normalizedNumber, srv_waiting = True, srv_requests = 0,
                          srv_ws_closes = 0, srv_logouts = 0\<rparr>],
                      srv_activeConnections := (srv_activeConnections w2)(normalizedNumber \<mapsto> c)\<rparr>)
      | _ \<Rightarrow> (Responded (pair_failed ''number.replace is not a function''), w))"

text \<open>
  How a continuation of the request handler ends: with a response, suspended for good in
  an await that never settles, or with an exception that leaves the handler.
\<close>

datatype srv_outcome = Sent response | Suspended | Unhandled string

text \<open>
  The rest of the request handler, run when the settle timer has elapsed. The catch block
  reads \<^verbatim>\<open>number\<close>, which is declared inside the try block and so is not in scope there:
  with \<^verbatim>\<open>conn\<close> set the read throws, nothing is cleaned up and no response is sent.
\<close>

definition srv_pair_resume :: "nat \<Rightarrow> env \<Rightarrow> srv_world \<Rightarrow> (srv_outcome \<times> srv_world) option" where
  "srv_pair_resume c e w =
     (if c < length (srv_sockets w) \<and> srv_waiting (srv_sockets w ! c) then
        let normalizedNumber = srv_number (srv_sockets w ! c);
            w1 = srv_upd_socket c
               (\<lambda>s. s\<lparr>srv_waiting := False, srv_requests := Suc (srv_requests s)\<rparr>) w
        in case pairing_reply e of
             NoReply \<Rightarrow> Some (Suspended, w1)
           | Code code \<Rightarrow>
               Some (Sent (PairingCode (Some code) normalizedNumber),
                 w1\<lparr>srv_pairingCodes := (srv_pairingCodes w1)(normalizedNumber \<mapsto> (code, now e))\<rparr>)
           | Failed msg \<Rightarrow> Some (Unhandled ''number is not defined'', w1)
      else None)"

text \<open>\<^verbatim>\<open>app.get("/api/status/:number")\<close> of server.js.\<close>

definition srv_status :: "string \<Rightarrow> env \<Rightarrow> srv_world \<Rightarrow> response" where
  "srv_status p e w =
     (case srv_activeConnections w (normalize p) of
        None \<Rightarrow> SrvStatus False None
      | Some c \<Rightarrow> SrvStatus True (Some (if readyState e = 1 then ''open'' else ''closed'')))"

text \<open>\<^verbatim>\<open>app.delete("/api/disconnect/:number")\<close> of server.js.\<close>

definition srv_disconnect :: "string \<Rightarrow> env \<Rightarrow> srv_world \<Rightarrow> response \<times> srv_world" where
  "srv_disconnect p e w =
     (let normalizedNumber = normalize p in
      case srv_activeConnections w normalizedNumber of
        None \<Rightarrow> (Message ''No active connection found'', w)
      | Some c \<Rightarrow>
          if logout_rejects e then (ServerError (err_msg e) [], w)
          else
            let w1 = srv_upd_socket c (\<lambda>s. s\<lparr>srv_logouts := Suc (srv_logouts s)\<rparr>) w in
            if close_throws e then (ServerError (err_msg e) [], w1)
            else
              let w2 = (srv_upd_socket c (\<lambda>s. s\<lparr>srv_ws_closes := Suc (srv_ws_closes s)\<rparr>) w1)
                         \<lparr>srv_activeConnections :=
                            (srv_activeConnections w1)(normalizedNumber := None)\<rparr>;
                  d = session_path normalizedNumber in
              if srv_dirs w2 d \<noteq> None then
                if rm_throws e then (ServerError (err_msg e) [], w2)
                else (Message ''Disconnected successfully'', w2\<lparr>srv_dirs := (srv_dirs w2)(d := None)\<rparr>)
              else (Message ''Disconnected successfully'', w2))"

definition srv_init :: srv_world where
  "srv_init = \<lparr>srv_activeConnections = Map.empty, srv_pairingCodes = Map.empty,
     srv_dirs = Map.empty, srv_sockets = []\<rparr>"

section \<open>Example worlds\<close>

text \<open>
  Concrete states and events used to run the theorems below: the state right after a
  registration request for \<^verbatim>\<open>+234 810 986 0102\<close> has created its socket, in each version,
  and the three kinds of connection event.
\<close>

definition paired_world :: world where
  "paired_world = snd (pair_start (JStr ''+234 810 986 0102'') calm init_world)"

definition srv_paired_world :: srv_world where
  "srv_paired_world = snd (srv_pair_start (JStr ''+234 810 986 0102'') calm srv_init)"

definition connecting :: update where
  "connecting = \<lparr>connection = Some Connecting, statusCode = None, qr = None\<rparr>"

definition opened :: update where
  "opened = \<lparr>connection = Some Open, statusCode = None, qr = None\<rparr>"

definition closed_with :: "int \<Rightarrow> update" where
  "closed_with sc = \<lparr>connection = Some Close, statusCode = Some sc, qr = None\<rparr>"



definition qr_shown :: update where
  "qr_shown = \<lparr>connection = None, statusCode = None, qr = Some ''2@abc''\<rparr>"

text \<open>The library saves the credentials of the first session into its directory.\<close>

definition saved_world :: world where
  "saved_world = run baileys [(PairRequest (JStr ''+234 810 986 0102''), calm),
                              (CredsUpdate 0, calm)] init_world"

text \<open>The same number is registered a second time while the first session is in the registry.\<close>

definition twice_world :: world where
  "twice_world = snd (pair_start (JStr ''2348109860102'') calm saved_world)"

text \<open>
  The Transport emits \<^verbatim>\<open>connecting\<close>, the handler asks for the pairing code and the
  Transport never answers; the deadline passes and the request handler resumes.
\<close>

definition silent :: env where
  "silent = calm\<lparr>pairing_reply := NoReply\<rparr>"

definition unanswered_world :: world where
  "unanswered_world = run baileys [(PairRequest (JStr ''+234 810 986 0102''), calm),
                                   (ConnectionUpdate 0 connecting, silent)] init_world"

definition timeout_result :: "(response \<times> world) option" where
  "timeout_result = pair_resume 0 calm (pair_timeout 0 unanswered_world)"

definition timeout_world :: world where
  "timeout_world = snd (the timeout_result)"

text \<open>
  A registration that succeeds: the Transport emits \<^verbatim>\<open>connecting\<close>, answers the request
  with a code, and the handler resumes. Afterwards the Transport closes with status 515,
  which is none of the three statuses the handler cleans up for.
\<close>

definition registration_reply :: "(response \<times> world) option" where
  "registration_reply = pair_resume 0 calm (connection_update baileys 0 connecting calm paired_world)"

definition coded_world :: world where
  "coded_world = snd (the registration_reply)"

definition restart_world :: world where
  "restart_world = connection_update baileys 0 (closed_with 515) calm coded_world"

definition restart_trace :: "(action \<times> env) list" where
  "restart_trace = [(ConnectionUpdate 0 connecting, calm), (PairResume 0, calm),
     (ConnectionUpdate 0 (closed_with 515), calm)]"

text \<open>The first \<^verbatim>\<open>open\<close> event of a session.\<close>

definition open_world :: world where
  "open_world = run baileys [(PairRequest (JStr ''+234 810 986 0102''), calm),
                             (ConnectionUpdate 0 opened, calm)] init_world"

section \<open>What a turn keeps\<close>

text \<open>
  What a turn may do to a socket that already exists: the closure variables stay, and a
  latch that is set stays set. Sockets are never removed from the list.
\<close>

definition keeps :: "session \<Rightarrow> session \<Rightarrow> bool" where
  "keeps s s' = (req_number s' = req_number s \<and> h_number s' = h_number s \<and> h_dir s' = h_dir s
     \<and> (pairingCodeRequested s \<longrightarrow> pairingCodeRequested s')
     \<and> (credsSent s \<longrightarrow> credsSent s'))"

definition grows :: "world \<Rightarrow> world \<Rightarrow> bool" where
  "grows w w' = (length (sockets w) \<le> length (sockets w')
     \<and> (\<forall>i < length (sockets w). keeps (sockets w ! i) (sockets w' ! i)))"

section \<open>Facts about the operations\<close>

subsection \<open>The small operations, field by field\<close>

lemma sockets_upd_socket_length [simp]: "length (sockets (upd_socket c f w)) = length (sockets w)"
  by (simp add: upd_socket_def)

lemma upd_socket_fields [simp]:
  "activeConnections (upd_socket c f w) = activeConnections w"
  "dirs (upd_socket c f w) = dirs w"
  "zips (upd_socket c f w) = zips w"
  "outbox (upd_socket c f w) = outbox w"
  by (simp_all add: upd_socket_def)

lemma upd_socket_nth:
  "sockets (upd_socket c f w) ! i =
     (if i = c \<and> c < length (sockets w) then f (sockets w ! c) else sockets w ! i)"
  by (cases "c < length (sockets w)") (simp_all add: upd_socket_def nth_list_update not_less list_update_beyond)

lemma rmSync_fields [simp]:
  "activeConnections (rmSync d w) = activeConnections w"
  "sockets (rmSync d w) = sockets w"
  "dirs (rmSync d w) = (dirs w)(d := None)"
  by (simp_all add: rmSync_def)

lemma registry_delete_fields [simp]:
  "activeConnections (registry_delete n w) = (activeConnections w)(n := None)"
  "sockets (registry_delete n w) = sockets w"
  "dirs (registry_delete n w) = dirs w"
  by (simp_all add: registry_delete_def)

lemma ws_close_fields [simp]:
  "activeConnections (ws_close c w) = activeConnections w"
  "dirs (ws_close c w) = dirs w"
  "length (sockets (ws_close c w)) = length (sockets w)"
  by (simp_all add: ws_close_def)

lemma ws_close_nth:
  "sockets (ws_close c w) ! i =
     (if i = c \<and> c < length (sockets w)
      then (sockets w ! c)\<lparr>ws_closes := Suc (ws_closes (sockets w ! c))\<rparr> else sockets w ! i)"
  by (simp add: ws_close_def upd_socket_nth)

subsection \<open>Every reachable world is well formed\<close>

lemma wf_upd_socket:
  assumes "wf_world w"
    and "c < length (sockets w) \<Longrightarrow> wf_session (sockets w ! c) \<Longrightarrow> wf_session (f (sockets w ! c))"
  shows "wf_world (upd_socket c f w)"
proof (cases "c < length (sockets w)")
  case True
  then have "wf_session (sockets w ! c)"
    using assms(1) by (simp add: wf_world_def list_all_length)
  with True have "wf_session (f (sockets w ! c))" by (rule assms(2))
  with assms(1) True show ?thesis
    by (simp add: wf_world_def upd_socket_def list_all_length nth_list_update)
next
  case False
  with assms(1) show ?thesis by (simp add: wf_world_def upd_socket_def not_less list_update_beyond)
qed

lemma saveCreds_fields [simp]:
  "activeConnections (saveCreds c e w) = activeConnections w"
  "sockets (saveCreds c e w) = sockets w"
  by (simp_all add: saveCreds_def split: option.splits)

lemma download_creds_fields [simp]:
  "activeConnections (snd (download_creds p e w)) = activeConnections w"
  "sockets (snd (download_creds p e w)) = sockets w"
  "dirs (snd (download_creds p e w)) = dirs w"
  by (simp_all add: download_creds_def Let_def split: option.splits)

lemma wf_world_fs [simp]:
  "wf_world (rmSync d w) = wf_world w"
  "wf_world (registry_delete n w) = wf_world w"
  "wf_world (mkdirSync d w) = wf_world w"
  "wf_world (saveCreds c e w) = wf_world w"
  "wf_world (snd (download_creds p e w)) = wf_world w"
  by (simp_all add: wf_world_def mkdirSync_def)

lemma wf_same_sockets: "wf_world w \<Longrightarrow> sockets w' = sockets w \<Longrightarrow> wf_world w'"
  by (simp add: wf_world_def)

lemma wf_state_branch: "wf_world w \<Longrightarrow> wf_world (state_branch R c u e w)"
  unfolding state_branch_def Let_def
  by (auto split: option.splits conn_status.splits intro!: wf_upd_socket
      simp: wf_session_def intro: wf_same_sockets)

lemma wf_connection_update: "wf_world w \<Longrightarrow> wf_world (connection_update R c u e w)"
  unfolding connection_update_def Let_def
  by (auto split: reply.splits intro!: wf_state_branch wf_upd_socket
      simp: wf_session_def wants_pairing_def)

lemma wf_pair_start: "wf_world w \<Longrightarrow> wf_world (snd (pair_start number e w))"
  unfolding pair_start_def Let_def
  by (auto split: jsval.splits simp: wf_world_def wf_session_def new_session_def mkdirSync_def rmSync_def)

lemma wf_pair_timeout: "wf_world w \<Longrightarrow> wf_world (pair_timeout c w)"
  unfolding pair_timeout_def by (auto intro!: wf_upd_socket simp: wf_session_def)

lemma wf_ws_close: "wf_world w \<Longrightarrow> wf_world (ws_close c w)"
  unfolding ws_close_def by (auto intro!: wf_upd_socket simp: wf_session_def)

lemma wf_rollback: "wf_world w \<Longrightarrow> wf_world (rollback c e w)"
  unfolding rollback_def Let_def
  by (auto intro: wf_ws_close)

lemma wf_pair_resume: "wf_world w \<Longrightarrow> pair_resume c e w = Some (r, w') \<Longrightarrow> wf_world w'"
  unfolding pair_resume_def Let_def
  by (auto split: if_splits promise.splits settled.splits intro!: wf_rollback wf_upd_socket simp: wf_session_def)

lemma wf_deliver: "wf_world w \<Longrightarrow> wf_world (deliver c e w)"
  unfolding deliver_def sendCredsToUser_def Let_def
  by (auto intro!: wf_upd_socket intro: wf_same_sockets simp: wf_session_def wf_world_def upd_socket_def list_all_length nth_list_update)

lemma wf_disconnect: "wf_world w \<Longrightarrow> wf_world (snd (disconnect p e w))"
  unfolding disconnect_def Let_def
  by (auto split: option.splits intro!: wf_upd_socket wf_ws_close simp: wf_session_def)

lemma wf_step: "wf_world w \<Longrightarrow> wf_world (step R a w)"
proof (cases a)
  case (Pair act e)
  assume "wf_world w"
  then show ?thesis unfolding Pair
    by (cases act) (auto intro: wf_pair_start wf_pair_timeout wf_pair_resume wf_connection_update wf_deliver wf_disconnect split: option.splits)
qed

lemma wf_run: "wf_world w \<Longrightarrow> wf_world (run R tr w)"
  by (induction tr arbitrary: w) (simp_all add: wf_step)

lemma wf_init: "wf_world init_world"
  by (simp add: wf_world_def init_world_def)

subsection \<open>Normalization and the first example worlds\<close>

lemma normalize_short_imp: "10 \<le> length (normalize raw) \<Longrightarrow> raw \<noteq> []"
  by (auto simp: normalize_def)

lemma normalize_example [simp]: "normalize ''+234 810 986 0102'' = ''2348109860102''"
  by (simp add: normalize_def is_digit_def)

lemma normalize_example2 [simp]: "normalize ''2348109860102'' = ''2348109860102''"
  by (simp add: normalize_def is_digit_def)

lemma normalize_other [simp]: "normalize ''15550001111'' = ''15550001111''"
  by (simp add: normalize_def is_digit_def)

lemma paired_world_eq:
  "paired_world = \<lparr>activeConnections = [''2348109860102'' \<mapsto>
        \<lparr>conn = 0, sessionDir = ''sessions/2348109860102'', timestamp = 1000\<rparr>],
      dirs = [''sessions/2348109860102'' \<mapsto> []], zips = {},
      sockets = [new_session ''+234 810 986 0102'' ''2348109860102'' ''sessions/2348109860102''],
      outbox = []\<rparr>"
  by (simp add: paired_world_def pair_start_def Let_def calm_def init_world_def existsSync_def
      mkdirSync_def session_path_def)

lemma sockets_paired_world [simp]:
  "sockets paired_world = [new_session ''+234 810 986 0102'' ''2348109860102'' ''sessions/2348109860102'']"
  by (simp add: paired_world_eq)

lemma srv_paired_world_eq:
  "srv_paired_world = \<lparr>srv_activeConnections = [''2348109860102'' \<mapsto> 0],
      srv_pairingCodes = Map.empty,
      srv_dirs = [''sessions/2348109860102'' \<mapsto> []],
      srv_sockets = [\<lparr>srv_number = ''2348109860102'', srv_waiting = True, srv_requests = 0,
                          srv_ws_closes = 0, srv_logouts = 0\<rparr>]\<rparr>"
  by (simp add: srv_paired_world_def srv_pair_start_def Let_def calm_def srv_init_def
      session_path_def)

subsection \<open>The close branch of the handler\<close>



subsection \<open>Latches are never reset\<close>

lemma grows_refl [simp]: "grows w w"
  by (simp add: grows_def keeps_def)

lemma grows_trans: "grows w w' \<Longrightarrow> grows w' w'' \<Longrightarrow> grows w w''"
  by (fastforce simp: grows_def keeps_def)

lemma grows_same_sockets: "sockets w' = sockets w \<Longrightarrow> grows w w'"
  by (simp add: grows_def keeps_def)

lemma grows_upd_socket:
  "(c < length (sockets w) \<Longrightarrow> keeps (sockets w ! c) (f (sockets w ! c))) \<Longrightarrow> grows w (upd_socket c f w)"
  by (auto simp: grows_def upd_socket_nth keeps_def)

lemma grows_state_branch: "grows w (state_branch R c u e w)"
proof (cases "connection u = Some Open \<and> \<not> credsSent (sockets w ! c)")
  case True
  then have "state_branch R c u e w
      = upd_socket c (\<lambda>s. s\<lparr>credsSent := True, deliveries := Suc (deliveries s)\<rparr>) w"
    by (simp add: state_branch_def)
  then show ?thesis by (simp add: grows_upd_socket keeps_def)
next
  case False
  then have "sockets (state_branch R c u e w) = sockets w"
    by (auto simp: state_branch_def Let_def split: option.splits conn_status.splits)
  then show ?thesis by (rule grows_same_sockets)
qed

lemma grows_request:
  "grows w (upd_socket c (\<lambda>s. s\<lparr>pairingCodePromise := p s\<rparr>)
     (upd_socket c (\<lambda>s. s\<lparr>pairingCodeRequested := True, requests := Suc (requests s)\<rparr>) w))"
  by (rule grows_trans [OF grows_upd_socket grows_upd_socket]) (simp_all add: keeps_def)

lemma grows_connection_update: "grows w (connection_update R c u e w)"
  unfolding connection_update_def Let_def
  by (auto split: reply.splits simp: grows_upd_socket keeps_def grows_state_branch
      intro: grows_trans [OF grows_request grows_state_branch])

lemma grows_pair_start: "grows w (snd (pair_start number e w))"
  unfolding pair_start_def Let_def
  by (auto split: jsval.splits simp: grows_def keeps_def mkdirSync_def rmSync_def nth_append)

lemma grows_pair_timeout: "grows w (pair_timeout c w)"
  unfolding pair_timeout_def by (simp add: grows_upd_socket keeps_def)

lemma grows_ws_close: "grows w (ws_close c w)"
  unfolding ws_close_def by (simp add: grows_upd_socket keeps_def)

lemma grows_fs [simp]:
  "grows w (rmSync d w')  = grows w w'"
  "grows w (registry_delete n w') = grows w w'"
  by (simp_all add: grows_def)

lemma grows_rollback: "grows w (rollback c e w)"
proof -
  have a: "grows w (rmSync d w)" for d by (rule grows_same_sockets) simp
  have b: "grows w (ws_close c (rmSync d w))" for d
    by (rule grows_trans [OF a grows_ws_close])
  show ?thesis unfolding rollback_def Let_def by (simp add: a b grows_ws_close)
qed

lemma grows_pair_resume: "pair_resume c e w = Some (r, w') \<Longrightarrow> grows w w'"
  unfolding pair_resume_def Let_def
  by (auto split: if_splits promise.splits settled.splits
      intro: grows_trans [OF grows_upd_socket grows_rollback] grows_upd_socket simp: keeps_def)

lemma grows_deliver: "grows w (deliver c e w)"
proof -
  have "sockets (snd (sendCredsToUser c e w')) = sockets w'" for w'
    by (simp add: sendCredsToUser_def Let_def)
  then have a: "grows w' (snd (sendCredsToUser c e w'))" for w'
    by (rule grows_same_sockets)
  have b: "grows w (upd_socket c (\<lambda>s. s\<lparr>delivery_runs := Suc (delivery_runs s)\<rparr>) w)"
    by (simp add: grows_upd_socket keeps_def)
  show ?thesis unfolding deliver_def using grows_trans [OF b a] by simp
qed

lemma grows_disconnect: "grows w (snd (disconnect p e w))"
  unfolding disconnect_def Let_def
  by (auto split: option.splits simp: grows_upd_socket keeps_def
      intro: grows_trans [OF grows_upd_socket grows_ws_close])

lemma grows_step: "grows w (step R a w)"
proof (cases a)
  case (Pair act e)
  show ?thesis unfolding Pair
    by (cases act) (auto simp: grows_pair_start grows_pair_timeout grows_connection_update
        grows_deliver grows_disconnect grows_same_sockets split: option.splits
        dest: grows_pair_resume)
qed

lemma grows_run: "grows w (run R tr w)"
proof (induction tr arbitrary: w)
  case Nil
  show ?case by simp
next
  case (Cons a tr)
  show ?case using grows_trans [OF grows_step Cons.IH] by simp
qed

subsection \<open>The request counter\<close>

lemma state_branch_length [simp]:
  "length (sockets (state_branch R c u e w)) = length (sockets w)"
  by (simp add: state_branch_def Let_def split: option.splits conn_status.splits)

lemma state_branch_requests [simp]:
  "requests (sockets (state_branch R c u e w) ! i) = requests (sockets w ! i)"
  "pairingCodeRequested (sockets (state_branch R c u e w) ! i) = pairingCodeRequested (sockets w ! i)"
  by (simp_all add: state_branch_def Let_def upd_socket_nth split: option.splits conn_status.splits)

lemma connection_update_length [simp]:
  "length (sockets (connection_update R c u e w)) = length (sockets w)"
  by (simp add: connection_update_def Let_def split: reply.splits)

lemma connection_update_requests:
  "c < length (sockets w) \<Longrightarrow>
   requests (sockets (connection_update R c u e w) ! i)
     = (if i = c \<and> wants_pairing u e (sockets w ! c) then Suc (requests (sockets w ! c))
        else requests (sockets w ! i))"
  by (simp add: connection_update_def Let_def upd_socket_nth split: reply.splits)

lemma connection_update_latch:
  "c < length (sockets w) \<Longrightarrow>
   pairingCodeRequested (sockets (connection_update R c u e w) ! i)
     = (if i = c \<and> wants_pairing u e (sockets w ! c) then True
        else pairingCodeRequested (sockets w ! i))"
  by (simp add: connection_update_def Let_def upd_socket_nth split: reply.splits)

lemma connection_update_other:
  "\<not> c < length (sockets w) \<Longrightarrow> connection_update R c u e w = w"
  by (simp add: connection_update_def)

lemma reachable_wf:
  "w = run R tr init_world \<Longrightarrow> c < length (sockets w) \<Longrightarrow> wf_session (sockets w ! c)"
  using wf_run [OF wf_init, of R tr] by (simp add: wf_world_def list_all_length)

lemma latch_run:
  "c < length (sockets w) \<Longrightarrow> pairingCodeRequested (sockets w ! c)
     \<Longrightarrow> pairingCodeRequested (sockets (run R tr w) ! c)"
  using grows_run [of w R tr] by (simp add: grows_def keeps_def)

lemma sent_run:
  "c < length (sockets w) \<Longrightarrow> credsSent (sockets w ! c)
     \<Longrightarrow> credsSent (sockets (run R tr w) ! c)"
  using grows_run [of w R tr] by (simp add: grows_def keeps_def)

lemma srv_upd_socket_nth:
  "srv_sockets (srv_upd_socket c f w) ! i =
     (if i = c \<and> c < length (srv_sockets w) then f (srv_sockets w ! c) else srv_sockets w ! i)"
  by (cases "c < length (srv_sockets w)")
    (simp_all add: srv_upd_socket_def nth_list_update not_less list_update_beyond)

lemma srv_upd_socket_length [simp]:
  "length (srv_sockets (srv_upd_socket c f w)) = length (srv_sockets w)"
  by (simp add: srv_upd_socket_def)

lemma srv_events_keep_sockets:
  "srv_sockets (srv_connection_update R c u e sw) = srv_sockets sw"
  by (simp add: srv_connection_update_def Let_def split: option.splits conn_status.splits)

lemma srv_resume_once:
  assumes "c < length (srv_sockets sw)" and "srv_waiting (srv_sockets sw ! c)"
  shows "srv_pair_resume c e sw \<noteq> None
       \<and> srv_requests (srv_sockets (snd (the (srv_pair_resume c e sw))) ! c)
           = Suc (srv_requests (srv_sockets sw ! c))
       \<and> srv_pair_resume c e' (snd (the (srv_pair_resume c e sw))) = None"
  using assms
  by (simp add: srv_pair_resume_def Let_def srv_upd_socket_nth split: reply.splits)

subsection \<open>Turns that leave the request counter alone\<close>

lemma requests_pair_start:
  "c < length (sockets w) \<Longrightarrow>
     requests (sockets (snd (pair_start number e w)) ! c) = requests (sockets w ! c)"
  by (simp add: pair_start_def Let_def mkdirSync_def rmSync_def nth_append split: jsval.splits)

lemma requests_pair_timeout:
  "requests (sockets (pair_timeout c' w) ! c) = requests (sockets w ! c)"
  by (simp add: pair_timeout_def upd_socket_nth)

lemma requests_rollback:
  "requests (sockets (rollback c' e w) ! c) = requests (sockets w ! c)"
  by (simp add: rollback_def Let_def ws_close_nth)

lemma requests_pair_resume:
  "pair_resume c' e w = Some (r, w') \<Longrightarrow> requests (sockets w' ! c) = requests (sockets w ! c)"
  by (auto simp: pair_resume_def Let_def requests_rollback upd_socket_nth
      split: if_splits promise.splits settled.splits)

lemma sendCredsToUser_frame:
  "activeConnections (snd (sendCredsToUser c e w)) = activeConnections w
   \<and> dirs (snd (sendCredsToUser c e w)) = dirs w
   \<and> sockets (snd (sendCredsToUser c e w)) = sockets w"
  by (simp add: sendCredsToUser_def Let_def)

lemma requests_deliver:
  "requests (sockets (deliver c' e w) ! c) = requests (sockets w ! c)"
  by (simp add: deliver_def sendCredsToUser_frame upd_socket_nth)

lemma requests_disconnect:
  "requests (sockets (snd (disconnect p e w)) ! c) = requests (sockets w ! c)"
  by (simp add: disconnect_def Let_def ws_close_nth upd_socket_nth split: option.splits)

lemma length_step: "length (sockets w) \<le> length (sockets (step R ae w))"
  using grows_step [of w R ae] by (simp add: grows_def)

lemma requests_run_restored:
  "c < length (sockets w) \<Longrightarrow> restored c tr \<Longrightarrow>
     requests (sockets (run R tr w) ! c) = requests (sockets w ! c)"
proof (induction tr arbitrary: w)
  case Nil
  show ?case by simp
next
  case (Cons ae tr)
  obtain a e where ae: "ae = (a, e)" by (cases ae)
  have len: "c < length (sockets (step R ae w))"
    using Cons.prems(1) length_step [of w R ae] by simp
  have rest: "restored c tr" using Cons.prems(2) unfolding ae by (cases a) simp_all
  have one: "requests (sockets (step R ae w) ! c) = requests (sockets w ! c)"
  proof (cases a)
    case (ConnectionUpdate c' u)
    show ?thesis
    proof (cases "c' < length (sockets w)")
      case True
      with Cons.prems show ?thesis unfolding ae ConnectionUpdate
        by (auto simp: connection_update_requests wants_pairing_def)
    next
      case False
      then show ?thesis unfolding ae ConnectionUpdate by (simp add: connection_update_other)
    qed
  next
    case (PairResume c')
    then show ?thesis unfolding ae
      by (auto split: option.splits dest: requests_pair_resume)
  qed (simp_all add: ae requests_pair_start Cons.prems(1) requests_pair_timeout requests_deliver
      requests_disconnect)
  from Cons.IH [OF len rest] one show ?case by simp
qed

subsection \<open>Turns that keep an identity registered\<close>

lemma registry_pair_start:
  "activeConnections w n \<noteq> None \<Longrightarrow> activeConnections (snd (pair_start number e w)) n \<noteq> None"
  by (auto simp: pair_start_def Let_def mkdirSync_def rmSync_def split: jsval.splits)

lemma registry_rollback:
  "activeConnections w n \<noteq> None \<Longrightarrow> normalize (req_number (sockets w ! c)) \<noteq> n
     \<Longrightarrow> activeConnections (rollback c e w) n \<noteq> None"
  by (simp add: rollback_def Let_def)

lemma registry_pair_resume:
  assumes "activeConnections w n \<noteq> None" and "\<not> removes R n w (PairResume c)"
    and "pair_resume c e w = Some (r, w')"
  shows "activeConnections w' n \<noteq> None"
proof -
  from assms(3) have c: "c < length (sockets w)"
    by (simp add: pair_resume_def split: if_splits)
  let ?w0 = "upd_socket c (\<lambda>s. s\<lparr>awaiting := False\<rparr>) w"
  have r0: "activeConnections ?w0 n \<noteq> None" using assms(1) by simp
  have q: "req_number (sockets ?w0 ! c) = req_number (sockets w ! c)"
    using c by (simp add: upd_socket_nth)
  show ?thesis
  proof (cases "fails (pairingCodePromise (sockets w ! c))")
    case True
    with assms(2) c have "normalize (req_number (sockets ?w0 ! c)) \<noteq> n" by (simp add: q)
    from registry_rollback [OF r0 this] assms(3) True c show ?thesis
      by (auto simp: pair_resume_def Let_def fails_def
          split: if_splits promise.splits settled.splits)
  next
    case False
    with assms(3) c r0 show ?thesis
      by (auto simp: pair_resume_def Let_def fails_def
          split: if_splits promise.splits settled.splits)
  qed
qed

lemma state_branch_registry:
  "activeConnections (state_branch R c u e w) =
     (if connection u = Some Close \<and> terminal R (statusCode u)
         \<and> (existsSync (h_dir (sockets w ! c)) w \<longrightarrow> \<not> rm_throws e)
      then (activeConnections w)(h_number (sockets w ! c) := None) else activeConnections w)"
  by (simp add: state_branch_def Let_def split: option.splits conn_status.splits)

lemma connection_update_registry:
  assumes "c < length (sockets w)"
  shows "activeConnections (connection_update R c u e w) = activeConnections w
       \<or> (connection u = Some Close \<and> terminal R (statusCode u)
           \<and> activeConnections (connection_update R c u e w)
               = (activeConnections w)(h_number (sockets w ! c) := None))"
  using assms
  by (simp add: connection_update_def Let_def state_branch_registry upd_socket_nth
      existsSync_def split: reply.splits)

lemma registry_connection_update:
  assumes "activeConnections w n \<noteq> None" and "\<not> removes R n w (ConnectionUpdate c u)"
  shows "activeConnections (connection_update R c u e w) n \<noteq> None"
proof (cases "c < length (sockets w)")
  case True
  from connection_update_registry [OF True, of R u e] assms True show ?thesis by auto
next
  case False
  with assms(1) show ?thesis by (simp add: connection_update_other)
qed

lemma registry_disconnect:
  "activeConnections w n \<noteq> None \<Longrightarrow> normalize p \<noteq> n
     \<Longrightarrow> activeConnections (snd (disconnect p e w)) n \<noteq> None"
  by (auto simp: disconnect_def Let_def split: option.splits)

lemma registry_step:
  assumes "activeConnections w n \<noteq> None" and "\<not> removes R n w a"
  shows "activeConnections (step R (a, e) w) n \<noteq> None"
proof (cases a)
  case (PairRequest number)
  with assms(1) show ?thesis by (simp add: registry_pair_start)
next
  case (PairTimeout c)
  with assms(1) show ?thesis by (simp add: pair_timeout_def)
next
  case (PairResume c)
  show ?thesis
  proof (cases "pair_resume c e w")
    case None
    with assms(1) PairResume show ?thesis by simp
  next
    case (Some rw)
    obtain r w' where rw: "rw = (r, w')" by (cases rw)
    from registry_pair_resume [OF assms(1) assms(2) [unfolded PairResume] Some [unfolded rw]]
    show ?thesis using PairResume Some rw by simp
  qed
next
  case (ConnectionUpdate c u)
  with assms show ?thesis by (simp add: registry_connection_update)
next
  case (CredsUpdate c)
  with assms(1) show ?thesis by simp
next
  case (Deliver c)
  with assms(1) show ?thesis by (simp add: deliver_def sendCredsToUser_frame)
next
  case (DownloadRequest p)
  with assms(1) show ?thesis by simp
next
  case (DisconnectRequest p)
  with assms show ?thesis by (simp add: registry_disconnect)
qed

lemma registry_run:
  "activeConnections w n \<noteq> None \<Longrightarrow> quiet R n tr w \<Longrightarrow> activeConnections (run R tr w) n \<noteq> None"
proof (induction tr arbitrary: w)
  case Nil
  then show ?case by simp
next
  case (Cons ae tr)
  obtain a e where ae: "ae = (a, e)" by (cases ae)
  from Cons.prems have "activeConnections (step R (a, e) w) n \<noteq> None"
    unfolding ae by (simp add: registry_step)
  with Cons.prems Cons.IH [of "step R ae w"] show ?case unfolding ae by simp
qed

lemma pair_start_registers:
  "fst (pair_start (JStr raw) e w) = Awaiting c \<Longrightarrow>
     activeConnections (snd (pair_start (JStr raw) e w)) (normalize raw) \<noteq> None"
  by (simp add: pair_start_def Let_def split: if_splits)

subsection \<open>The example runs, evaluated\<close>

lemma connecting_world_eq:
  "connection_update baileys 0 connecting calm paired_world
     = paired_world\<lparr>sockets := [(new_session ''+234 810 986 0102'' ''2348109860102''
          ''sessions/2348109860102'')\<lparr>pairingCodeRequested := True, requests := 1,
             pairingCodePromise := Resolved (RCode ''ABC-123'')\<rparr>]\<rparr>"
  by (simp add: connection_update_def Let_def wants_pairing_def connecting_def calm_def
      upd_socket_def state_branch_def settle_def new_session_def)

lemma registration_reply_eq:
  "registration_reply = Some (PairingCode (Some ''ABC-123'') ''2348109860102'',
     paired_world\<lparr>sockets := [(new_session ''+234 810 986 0102'' ''2348109860102''
          ''sessions/2348109860102'')\<lparr>pairingCodeRequested := True, requests := 1,
             pairingCodePromise := Resolved (RCode ''ABC-123''), awaiting := False\<rparr>]\<rparr>)"
  by (simp add: registration_reply_def connecting_world_eq pair_resume_def Let_def
      upd_socket_def new_session_def)

lemma paired_world_run:
  "paired_world = run baileys [(PairRequest (JStr ''+234 810 986 0102''), calm)] init_world"
  by (simp add: paired_world_def)

lemma unanswered_world_eq:
  "unanswered_world = paired_world\<lparr>sockets := [(new_session ''+234 810 986 0102''
      ''2348109860102'' ''sessions/2348109860102'')\<lparr>pairingCodeRequested := True,
        requests := 1\<rparr>]\<rparr>"
proof -
  have "unanswered_world = connection_update baileys 0 connecting silent paired_world"
    by (simp add: unanswered_world_def paired_world_def)
  also have "\<dots> = paired_world\<lparr>sockets := [(new_session ''+234 810 986 0102''
      ''2348109860102'' ''sessions/2348109860102'')\<lparr>pairingCodeRequested := True,
        requests := 1\<rparr>]\<rparr>"
    by (simp add: connection_update_def Let_def wants_pairing_def connecting_def silent_def
        calm_def upd_socket_def new_session_def)
  finally show ?thesis .
qed

lemma requested_world_run:
  "connection_update baileys 0 connecting calm paired_world
     = run baileys [(PairRequest (JStr ''+234 810 986 0102''), calm),
                    (ConnectionUpdate 0 connecting, calm)] init_world"
  by (simp add: paired_world_def)

lemma open_world_eq:
  "open_world = paired_world\<lparr>sockets := [(new_session ''+234 810 986 0102'' ''2348109860102''
          ''sessions/2348109860102'')\<lparr>credsSent := True, deliveries := 1\<rparr>]\<rparr>"
  by (simp add: open_world_def paired_world_def [symmetric] connection_update_def Let_def
      wants_pairing_def qr_truthy_def opened_def upd_socket_def state_branch_def new_session_def)

lemma restart_world_run: "run baileys restart_trace paired_world = restart_world"
  by (simp add: restart_trace_def restart_world_def coded_world_def registration_reply_def
      registration_reply_eq [unfolded registration_reply_def])

lemma restart_world_registry:
  "activeConnections restart_world ''2348109860102''
     = Some \<lparr>conn = 0, sessionDir = ''sessions/2348109860102'', timestamp = 1000\<rparr>"
  by (simp add: restart_world_def coded_world_def registration_reply_eq terminal_def baileys_def
      closed_with_def connection_update_def Let_def wants_pairing_def state_branch_def
      paired_world_eq calm_def)

lemma saved_world_eq:
  "saved_world = paired_world\<lparr>dirs := [''sessions/2348109860102'' \<mapsto> [''creds.json'']]\<rparr>"
proof -
  have "saved_world = saveCreds 0 calm paired_world"
    by (simp add: saved_world_def paired_world_def)
  also have "\<dots> = paired_world\<lparr>dirs := [''sessions/2348109860102'' \<mapsto> [''creds.json'']]\<rparr>"
    by (simp add: saveCreds_def paired_world_eq new_session_def calm_def)
  finally show ?thesis .
qed

lemma sockets_saved_world [simp]:
  "sockets saved_world = [new_session ''+234 810 986 0102'' ''2348109860102'' ''sessions/2348109860102'']"
  by (simp add: saved_world_eq)

section \<open>The claims\<close>

subsection \<open>C1\<close>

text \<open>
  Claim C1 (as the code has it). In every reachable state of the event-driven server, if a
  registration request waits on socket \<open>c\<close> and its promise is still pending when the
  thirty-second timer fires, the handler resumes in its catch block: the caller gets the
  error response with the details \<^verbatim>\<open>Pairing code request timeout\<close>, and the cleanup of the
  catch block runs. When neither \<^verbatim>\<open>fs.rmSync\<close> nor \<^verbatim>\<open>ws.close\<close> throws, the registry entry
  of the identity is gone, its credential directory is gone, and the socket has been
  closed. The claim that the session survives the timeout does not hold.
\<close>

theorem pair_timeout_rolls_back:
  assumes "w = run R tr init_world" and "c < length (sockets w)"
    and "awaiting (sockets w ! c)" and "pairingCodePromise (sockets w ! c) = Pending"
  shows "map_option fst (pair_resume c e (pair_timeout c w))
           = Some (pair_failed ''Pairing code request timeout'')
       \<and> (\<not> rm_throws e \<and> \<not> close_throws e \<longrightarrow>
            activeConnections (snd (the (pair_resume c e (pair_timeout c w))))
              (h_number (sockets w ! c)) = None
          \<and> dirs (snd (the (pair_resume c e (pair_timeout c w)))) (h_dir (sockets w ! c)) = None
          \<and> ws_closes (sockets (snd (the (pair_resume c e (pair_timeout c w)))) ! c)
              = Suc (ws_closes (sockets w ! c)))"
proof -
  have "wf_world w" unfolding assms(1) by (rule wf_run [OF wf_init])
  with assms(2) have s: "wf_session (sockets w ! c)"
    by (simp add: wf_world_def list_all_length)
  then have n: "normalize (req_number (sockets w ! c)) \<noteq> []" by (auto simp: wf_session_def)
  from s have hn: "h_number (sockets w ! c) = normalize (req_number (sockets w ! c))"
    and hd: "h_dir (sockets w ! c) = session_path (normalize (req_number (sockets w ! c)))"
    by (simp_all add: wf_session_def)
  show ?thesis
    using assms(2-4) n hn hd
    by (simp add: pair_resume_def pair_timeout_def Let_def upd_socket_nth settle_def
        rollback_def existsSync_def ws_close_nth)
qed

text \<open>
  The run that contradicts the claim as stated: before the timeout the identity is in the
  registry and its directory exists; after the timeout response neither is there.
\<close>

theorem pair_timeout_rolls_back_counterexample:
  "requests (sockets unanswered_world ! 0) = 1
   \<and> activeConnections unanswered_world ''2348109860102''
       = Some \<lparr>conn = 0, sessionDir = ''sessions/2348109860102'', timestamp = 1000\<rparr>
   \<and> dirs unanswered_world ''sessions/2348109860102'' = Some []
   \<and> timeout_result = Some (pair_failed ''Pairing code request timeout'', timeout_world)
   \<and> activeConnections timeout_world ''2348109860102'' = None
   \<and> dirs timeout_world ''sessions/2348109860102'' = None"
  by (simp add: timeout_world_def timeout_result_def pair_resume_def pair_timeout_def Let_def
      upd_socket_def settle_def rollback_def existsSync_def ws_close_def registry_delete_def
      rmSync_def unanswered_world_eq paired_world_eq new_session_def calm_def session_path_def)

text \<open>The theorem at a concrete run.\<close>

theorem pair_timeout_rolls_back_witness:
  "unanswered_world = run baileys [(PairRequest (JStr ''+234 810 986 0102''), calm),
                                   (ConnectionUpdate 0 connecting, silent)] init_world
   \<and> 0 < length (sockets unanswered_world)
   \<and> awaiting (sockets unanswered_world ! 0)
   \<and> pairingCodePromise (sockets unanswered_world ! 0) = Pending
   \<and> \<not> rm_throws calm \<and> \<not> close_throws calm
   \<and> map_option fst (pair_resume 0 calm (pair_timeout 0 unanswered_world))
       = Some (pair_failed ''Pairing code request timeout'')
   \<and> activeConnections (snd (the (pair_resume 0 calm (pair_timeout 0 unanswered_world))))
        ''2348109860102'' = None
   \<and> dirs (snd (the (pair_resume 0 calm (pair_timeout 0 unanswered_world))))
        ''sessions/2348109860102'' = None
   \<and> ws_closes (sockets (snd (the (pair_resume 0 calm (pair_timeout 0 unanswered_world)))) ! 0) = 1"
proof -
  have h2: "0 < length (sockets unanswered_world)" by (simp add: unanswered_world_eq)
  have h3: "awaiting (sockets unanswered_world ! 0)"
    by (simp add: unanswered_world_eq new_session_def)
  have h4: "pairingCodePromise (sockets unanswered_world ! 0) = Pending"
    by (simp add: unanswered_world_eq new_session_def)
  have q: "\<not> rm_throws calm \<and> \<not> close_throws calm" by (simp add: calm_def)
  have v: "h_number (sockets unanswered_world ! 0) = ''2348109860102''"
    "h_dir (sockets unanswered_world ! 0) = ''sessions/2348109860102''"
    "ws_closes (sockets unanswered_world ! 0) = 0"
    by (simp_all add: unanswered_world_eq new_session_def)
  from pair_timeout_rolls_back [OF unanswered_world_def h2 h3 h4, of calm] q
  have "map_option fst (pair_resume 0 calm (pair_timeout 0 unanswered_world))
       = Some (pair_failed ''Pairing code request timeout'')
   \<and> activeConnections (snd (the (pair_resume 0 calm (pair_timeout 0 unanswered_world))))
        ''2348109860102'' = None
   \<and> dirs (snd (the (pair_resume 0 calm (pair_timeout 0 unanswered_world))))
        ''sessions/2348109860102'' = None
   \<and> ws_closes (sockets (snd (the (pair_resume 0 calm (pair_timeout 0 unanswered_world)))) ! 0) = 1"
    by (simp add: v)
  with unanswered_world_def h2 h3 h4 q show ?thesis by blast
qed

subsection \<open>C2\<close>

text \<open>
  Claim C2 (as the code has it). In every reachable state of the event-driven server the
  number of \<^verbatim>\<open>requestPairingCode\<close> calls made on a socket is 0 while its latch
  \<^verbatim>\<open>pairingCodeRequested\<close> is false and 1 once it is true; a latch that is set stays set
  through every continuation; and after a \<^verbatim>\<open>connecting\<close> or QR event handled while the
  credentials are not registered the count is exactly 1. In server.js the connection
  events never touch the sockets, and the continuation after the settle timer makes one
  call and cannot run a second time. A readiness signal that finds the credentials
  registered makes no call, so "exactly once under any signal" does not hold.
\<close>

theorem pairing_requested_at_most_once:
  assumes "w = run R tr init_world" and "c < length (sockets w)"
  shows "requests (sockets w ! c) = (if pairingCodeRequested (sockets w ! c) then 1 else 0)
       \<and> (pairingCodeRequested (sockets w ! c) \<longrightarrow>
            pairingCodeRequested (sockets (run R tr' w) ! c))
       \<and> ((connection u = Some Connecting \<or> qr_truthy u) \<and> \<not> registered e \<longrightarrow>
            requests (sockets (connection_update R c u e w) ! c) = 1
          \<and> pairingCodeRequested (sockets (connection_update R c u e w) ! c))
       \<and> srv_sockets (srv_connection_update R c' u e sw) = srv_sockets sw
       \<and> (c' < length (srv_sockets sw) \<and> srv_waiting (srv_sockets sw ! c') \<longrightarrow>
            srv_pair_resume c' e sw \<noteq> None
          \<and> srv_requests (srv_sockets (snd (the (srv_pair_resume c' e sw))) ! c')
              = Suc (srv_requests (srv_sockets sw ! c'))
          \<and> srv_pair_resume c' e' (snd (the (srv_pair_resume c' e sw))) = None)"
proof -
  from assms have wf: "wf_session (sockets w ! c)" by (rule reachable_wf)
  then have count: "requests (sockets w ! c) = (if pairingCodeRequested (sockets w ! c) then 1 else 0)"
    by (simp add: wf_session_def)
  have latch: "pairingCodeRequested (sockets w ! c) \<longrightarrow>
      pairingCodeRequested (sockets (run R tr' w) ! c)"
    using assms(2) by (simp add: latch_run)
  have signal: "(connection u = Some Connecting \<or> qr_truthy u) \<and> \<not> registered e \<longrightarrow>
            requests (sockets (connection_update R c u e w) ! c) = 1
          \<and> pairingCodeRequested (sockets (connection_update R c u e w) ! c)"
    using assms(2) count
    by (auto simp: connection_update_requests connection_update_latch wants_pairing_def
        split: if_splits)
  have timer: "c' < length (srv_sockets sw) \<and> srv_waiting (srv_sockets sw ! c') \<longrightarrow>
            srv_pair_resume c' e sw \<noteq> None
          \<and> srv_requests (srv_sockets (snd (the (srv_pair_resume c' e sw))) ! c')
              = Suc (srv_requests (srv_sockets sw ! c'))
          \<and> srv_pair_resume c' e' (snd (the (srv_pair_resume c' e sw))) = None"
    using srv_resume_once [where c = c' and sw = sw and e = e and e' = e'] by blast
  from count latch signal timer srv_events_keep_sockets [of R c' u e sw]
  show ?thesis by blast
qed

text \<open>
  A \<^verbatim>\<open>connecting\<close> event that finds the credentials registered: no request is made and
  the latch stays false.
\<close>

theorem pairing_requested_at_most_once_counterexample:
  "connection connecting = Some Connecting
   \<and> requests (sockets (connection_update baileys 0 connecting (calm\<lparr>registered := True\<rparr>)
        paired_world) ! 0) = 0
   \<and> pairingCodeRequested (sockets (connection_update baileys 0 connecting
        (calm\<lparr>registered := True\<rparr>) paired_world) ! 0) = False"
  by (simp add: connection_update_requests connection_update_latch wants_pairing_def calm_def
      connecting_def new_session_def)

text \<open>The theorem at a concrete run.\<close>

theorem pairing_requested_at_most_once_witness:
  "paired_world = run baileys [(PairRequest (JStr ''+234 810 986 0102''), calm)] init_world
   \<and> 0 < length (sockets paired_world)
   \<and> connection connecting = Some Connecting \<and> \<not> registered calm
   \<and> requests (sockets (connection_update baileys 0 connecting calm paired_world) ! 0) = 1
   \<and> pairingCodeRequested (sockets (connection_update baileys 0 connecting calm paired_world) ! 0)
   \<and> pairingCodeRequested (sockets (run baileys [(ConnectionUpdate 0 qr_shown, calm)]
        (connection_update baileys 0 connecting calm paired_world)) ! 0)
   \<and> qr_truthy qr_shown
   \<and> requests (sockets (connection_update baileys 0 qr_shown calm
        (connection_update baileys 0 connecting calm paired_world)) ! 0) = 1
   \<and> 0 < length (srv_sockets srv_paired_world) \<and> srv_waiting (srv_sockets srv_paired_world ! 0)
   \<and> srv_pair_resume 0 calm srv_paired_world \<noteq> None
   \<and> srv_requests (srv_sockets (snd (the (srv_pair_resume 0 calm srv_paired_world))) ! 0) = 1
   \<and> srv_pair_resume 0 calm (snd (the (srv_pair_resume 0 calm srv_paired_world))) = None"
proof -
  let ?w1 = "connection_update baileys 0 connecting calm paired_world"
  have h2: "0 < length (sockets paired_world)" by simp
  have h2': "0 < length (sockets ?w1)" by simp
  have s1: "connection connecting = Some Connecting" by (simp add: connecting_def)
  have s2: "\<not> registered calm" by (simp add: calm_def)
  have s3: "qr_truthy qr_shown" by (simp add: qr_truthy_def qr_shown_def)
  have v1: "0 < length (srv_sockets srv_paired_world)" by (simp add: srv_paired_world_eq)
  have v2: "srv_waiting (srv_sockets srv_paired_world ! 0)" by (simp add: srv_paired_world_eq)
  have v3: "srv_requests (srv_sockets srv_paired_world ! 0) = 0" by (simp add: srv_paired_world_eq)
  note a = pairing_requested_at_most_once [OF paired_world_run h2,
      where u = connecting and e = calm and c' = 0 and sw = srv_paired_world and e' = calm
        and tr' = "[]"]
  note b = pairing_requested_at_most_once [OF requested_world_run h2',
      where u = qr_shown and e = calm and tr' = "[(ConnectionUpdate 0 qr_shown, calm)]"
        and c' = 0 and sw = srv_paired_world and e' = calm]
  from a s1 s2 have a1: "requests (sockets ?w1 ! 0) = 1 \<and> pairingCodeRequested (sockets ?w1 ! 0)"
    by blast
  from a v1 v2 have a2: "srv_pair_resume 0 calm srv_paired_world \<noteq> None
   \<and> srv_requests (srv_sockets (snd (the (srv_pair_resume 0 calm srv_paired_world))) ! 0)
       = Suc (srv_requests (srv_sockets srv_paired_world ! 0))
   \<and> srv_pair_resume 0 calm (snd (the (srv_pair_resume 0 calm srv_paired_world))) = None"
    by blast
  from b a1 have b1: "pairingCodeRequested (sockets (run baileys [(ConnectionUpdate 0 qr_shown, calm)] ?w1) ! 0)"
    by blast
  from b s2 s3 have b2: "requests (sockets (connection_update baileys 0 qr_shown calm ?w1) ! 0) = 1"
    by blast
  from a2 v3 have a3: "srv_requests (srv_sockets (snd (the (srv_pair_resume 0 calm srv_paired_world))) ! 0) = 1"
    by simp
  from paired_world_run h2 s1 s2 s3 a1 b1 b2 v1 v2 a2 a3 show ?thesis by blast
qed

subsection \<open>C3\<close>

text \<open>
  Claim C3. In every reachable state the number of delivery timers set for a socket is 0
  while \<^verbatim>\<open>credsSent\<close> is false and 1 once it is true, the delivery has run at most as often
  as it was scheduled, and \<^verbatim>\<open>credsSent\<close> stays true through every continuation: repeated
  \<^verbatim>\<open>open\<close> events schedule the delivery at most once. \<^verbatim>\<open>sendCredsToUser\<close> leaves the
  registry, the credential directories and every socket's state as they were, whatever
  its outcome, and returns \<^verbatim>\<open>false\<close> when zipping, sending or unlinking fails.
\<close>

theorem credentials_scheduled_at_most_once:
  assumes "w = run R tr init_world" and "c < length (sockets w)"
  shows "deliveries (sockets w ! c) = (if credsSent (sockets w ! c) then 1 else 0)
       \<and> delivery_runs (sockets w ! c) \<le> deliveries (sockets w ! c)
       \<and> (credsSent (sockets w ! c) \<longrightarrow> credsSent (sockets (run R tr' w) ! c))
       \<and> activeConnections (snd (sendCredsToUser c e w)) = activeConnections w
       \<and> dirs (snd (sendCredsToUser c e w)) = dirs w
       \<and> sockets (snd (sendCredsToUser c e w)) = sockets w
       \<and> (zip_fails e \<or> send_fails e \<or> unlink_throws e \<longrightarrow> \<not> fst (sendCredsToUser c e w))"
proof -
  from assms have wf: "wf_session (sockets w ! c)" by (rule reachable_wf)
  have fail: "zip_fails e \<or> send_fails e \<or> unlink_throws e \<longrightarrow> \<not> fst (sendCredsToUser c e w)"
    by (auto simp: sendCredsToUser_def Let_def)
  from wf fail sent_run [OF assms(2), of R tr'] sendCredsToUser_frame [of c e w]
  show ?thesis by (simp add: wf_session_def)
qed

text \<open>The theorem at a concrete run.\<close>

theorem credentials_scheduled_at_most_once_witness:
  "open_world = run baileys [(PairRequest (JStr ''+234 810 986 0102''), calm),
                             (ConnectionUpdate 0 opened, calm)] init_world
   \<and> 0 < length (sockets open_world)
   \<and> credsSent (sockets open_world ! 0)
   \<and> deliveries (sockets open_world ! 0) = 1
   \<and> delivery_runs (sockets open_world ! 0) \<le> deliveries (sockets open_world ! 0)
   \<and> credsSent (sockets (run baileys [(ConnectionUpdate 0 opened, calm)] open_world) ! 0)
   \<and> send_fails (calm\<lparr>send_fails := True\<rparr>)
   \<and> activeConnections (snd (sendCredsToUser 0 (calm\<lparr>send_fails := True\<rparr>) open_world))
       = activeConnections open_world
   \<and> dirs (snd (sendCredsToUser 0 (calm\<lparr>send_fails := True\<rparr>) open_world)) = dirs open_world
   \<and> sockets (snd (sendCredsToUser 0 (calm\<lparr>send_fails := True\<rparr>) open_world))
       = sockets open_world
   \<and> \<not> fst (sendCredsToUser 0 (calm\<lparr>send_fails := True\<rparr>) open_world)"
proof -
  have h1: "open_world = run baileys [(PairRequest (JStr ''+234 810 986 0102''), calm),
                             (ConnectionUpdate 0 opened, calm)] init_world"
    by (rule open_world_def)
  have h2: "0 < length (sockets open_world)" by (simp add: open_world_eq)
  have s: "credsSent (sockets open_world ! 0)" by (simp add: open_world_eq)
  have f: "send_fails (calm\<lparr>send_fails := True\<rparr>)" by simp
  from credentials_scheduled_at_most_once [OF h1 h2,
      where tr' = "[(ConnectionUpdate 0 opened, calm)]" and e = "calm\<lparr>send_fails := True\<rparr>"]
    h1 h2 s f
  show ?thesis by simp
qed

subsection \<open>C4\<close>

text \<open>
  Claim C4 (as the code has it). A registration request for a number of at least ten
  digits, with no failing external call, stores a fresh socket under the identity
  (replacing any entry that was there), leaves the credential directory existing and
  empty (an old one is deleted and created again), and appends the new socket to the
  sockets: every socket that existed before is exactly as it was, so the Transport of an
  earlier session for the same identity is not closed. Both versions behave so.
\<close>

theorem reregistration_replaces_entry:
  assumes "10 \<le> length (normalize raw)"
    and "\<not> rm_throws e" and "\<not> mkdir_throws e" and "\<not> init_throws e"
  shows "fst (pair_start (JStr raw) e w) = Awaiting (length (sockets w))
       \<and> activeConnections (snd (pair_start (JStr raw) e w)) (normalize raw)
           = Some \<lparr>conn = length (sockets w), sessionDir = session_path (normalize raw),
                    timestamp = now e\<rparr>
       \<and> dirs (snd (pair_start (JStr raw) e w)) (session_path (normalize raw)) = Some []
       \<and> sockets (snd (pair_start (JStr raw) e w))
           = sockets w @ [new_session raw (normalize raw) (session_path (normalize raw))]
       \<and> fst (srv_pair_start (JStr raw) e sw) = Awaiting (length (srv_sockets sw))
       \<and> srv_activeConnections (snd (srv_pair_start (JStr raw) e sw)) (normalize raw)
           = Some (length (srv_sockets sw))
       \<and> srv_dirs (snd (srv_pair_start (JStr raw) e sw)) (session_path (normalize raw)) = Some []
       \<and> take (length (srv_sockets sw)) (srv_sockets (snd (srv_pair_start (JStr raw) e sw)))
           = srv_sockets sw"
proof -
  from assms(1) have ne: "raw \<noteq> []" by (rule normalize_short_imp)
  from assms(1) have nl: "\<not> length (normalize raw) < 10" by simp
  show ?thesis using ne nl assms(2-4)
    by (simp add: pair_start_def srv_pair_start_def Let_def existsSync_def mkdirSync_def
        rmSync_def)
qed

text \<open>
  The first session has its credentials saved. After the second registration of the same
  number the registry holds socket 1 and the directory is empty, and socket 0 has seen
  neither \<^verbatim>\<open>ws.close\<close> nor \<^verbatim>\<open>logout\<close>.
\<close>

theorem reregistration_replaces_entry_counterexample:
  "dirs saved_world ''sessions/2348109860102'' = Some [''creds.json'']
   \<and> activeConnections saved_world ''2348109860102''
       = Some \<lparr>conn = 0, sessionDir = ''sessions/2348109860102'', timestamp = 1000\<rparr>
   \<and> activeConnections twice_world ''2348109860102''
       = Some \<lparr>conn = 1, sessionDir = ''sessions/2348109860102'', timestamp = 1000\<rparr>
   \<and> dirs twice_world ''sessions/2348109860102'' = Some []
   \<and> length (sockets twice_world) = 2
   \<and> ws_closes (sockets twice_world ! 0) = 0
   \<and> logouts (sockets twice_world ! 0) = 0"
  by (simp add: twice_world_def pair_start_def Let_def saved_world_eq paired_world_eq calm_def
      existsSync_def mkdirSync_def rmSync_def session_path_def new_session_def)

text \<open>The theorem at a concrete run.\<close>

theorem reregistration_replaces_entry_witness:
  "10 \<le> length (normalize ''2348109860102'')
   \<and> \<not> rm_throws calm \<and> \<not> mkdir_throws calm \<and> \<not> init_throws calm
   \<and> dirs saved_world ''sessions/2348109860102'' = Some [''creds.json'']
   \<and> fst (pair_start (JStr ''2348109860102'') calm saved_world) = Awaiting 1
   \<and> activeConnections (snd (pair_start (JStr ''2348109860102'') calm saved_world)) ''2348109860102''
       = Some \<lparr>conn = 1, sessionDir = ''sessions/2348109860102'', timestamp = 1000\<rparr>
   \<and> dirs (snd (pair_start (JStr ''2348109860102'') calm saved_world)) ''sessions/2348109860102'' = Some []
   \<and> sockets (snd (pair_start (JStr ''2348109860102'') calm saved_world)) ! 0 = sockets saved_world ! 0
   \<and> fst (srv_pair_start (JStr ''2348109860102'') calm srv_paired_world) = Awaiting 1
   \<and> srv_activeConnections (snd (srv_pair_start (JStr ''2348109860102'') calm srv_paired_world)) ''2348109860102''
       = Some 1"
proof -
  have h1: "10 \<le> length (normalize ''2348109860102'')" by simp
  have h2: "\<not> rm_throws calm" and h3: "\<not> mkdir_throws calm" and h4: "\<not> init_throws calm"
    by (simp_all add: calm_def)
  have d: "dirs saved_world ''sessions/2348109860102'' = Some [''creds.json'']"
    by (simp add: saved_world_eq)
  from reregistration_replaces_entry [OF h1 h2 h3 h4, of saved_world srv_paired_world] h1 h2 h3 h4 d
  show ?thesis by (simp add: session_path_def calm_def srv_paired_world_eq)
qed

subsection \<open>C5\<close>

text \<open>
  Claim C5. A registration request whose number has fewer than ten digits after
  normalization is answered with a 400 response and the world is unchanged: no socket, no
  directory, no registry entry. The message is \<^verbatim>\<open>Phone number is required\<close> for the empty
  string and the invalid-format message otherwise. Both versions behave so.
\<close>

theorem pair_rejects_short_identity:
  assumes "length (normalize raw) < 10"
  shows "pair_start (JStr raw) e w =
           (Responded (BadRequest (if raw = [] then ''Phone number is required''
                                   else invalid_format)), w)
       \<and> srv_pair_start (JStr raw) e sw =
           (Responded (BadRequest (if raw = [] then ''Phone number is required''
                                   else invalid_format)), sw)"
  using assms by (simp add: pair_start_def srv_pair_start_def)

text \<open>The theorem at a concrete run.\<close>

theorem pair_rejects_short_identity_witness:
  "length (normalize ''123'') < 10
   \<and> pair_start (JStr ''123'') calm init_world
       = (Responded (BadRequest invalid_format), init_world)
   \<and> srv_pair_start (JStr ''123'') calm srv_init
       = (Responded (BadRequest invalid_format), srv_init)"
proof -
  have h: "length (normalize ''123'') < 10"
    by (simp add: normalize_def is_digit_def)
  from pair_rejects_short_identity [OF h, of calm init_world srv_init] h
  show ?thesis by simp
qed

subsection \<open>C6\<close>




subsection \<open>C7\<close>

text \<open>
  Claim C7 (as the code has it). The disconnect handler of either version runs logout,
  \<^verbatim>\<open>ws.close\<close>, the registry removal and the directory deletion in this order inside one
  try block. A step that throws ends the handler with a 500 response and skips every later
  step; the steps already done stay done; when no step throws, all four are done. The
  steps are therefore not individually best-effort.
\<close>

theorem disconnect_stops_at_first_failure:
  assumes "activeConnections w (normalize p) = Some k" and "conn k < length (sockets w)"
    and "srv_activeConnections sw (normalize p) = Some c" and "c < length (srv_sockets sw)"
  shows "(logout_rejects e \<longrightarrow>
            disconnect p e w = (ServerError (err_msg e) [], w)
          \<and> srv_disconnect p e sw = (ServerError (err_msg e) [], sw))
       \<and> (\<not> logout_rejects e \<and> close_throws e \<longrightarrow>
            fst (disconnect p e w) = ServerError (err_msg e) []
          \<and> activeConnections (snd (disconnect p e w)) = activeConnections w
          \<and> dirs (snd (disconnect p e w)) = dirs w
          \<and> ws_closes (sockets (snd (disconnect p e w)) ! conn k) = ws_closes (sockets w ! conn k)
          \<and> logouts (sockets (snd (disconnect p e w)) ! conn k) = Suc (logouts (sockets w ! conn k))
          \<and> fst (srv_disconnect p e sw) = ServerError (err_msg e) []
          \<and> srv_activeConnections (snd (srv_disconnect p e sw)) = srv_activeConnections sw
          \<and> srv_dirs (snd (srv_disconnect p e sw)) = srv_dirs sw)
       \<and> (\<not> logout_rejects e \<and> \<not> close_throws e \<and> rm_throws e \<and> existsSync (sessionDir k) w \<longrightarrow>
            fst (disconnect p e w) = ServerError (err_msg e) []
          \<and> activeConnections (snd (disconnect p e w)) = (activeConnections w)(normalize p := None)
          \<and> dirs (snd (disconnect p e w)) = dirs w
          \<and> ws_closes (sockets (snd (disconnect p e w)) ! conn k) = Suc (ws_closes (sockets w ! conn k)))
       \<and> (\<not> logout_rejects e \<and> \<not> close_throws e \<and> \<not> rm_throws e \<longrightarrow>
            fst (disconnect p e w) = Disconnected
          \<and> activeConnections (snd (disconnect p e w)) = (activeConnections w)(normalize p := None)
          \<and> dirs (snd (disconnect p e w)) = (dirs w)(sessionDir k := None)
          \<and> ws_closes (sockets (snd (disconnect p e w)) ! conn k) = Suc (ws_closes (sockets w ! conn k))
          \<and> logouts (sockets (snd (disconnect p e w)) ! conn k) = Suc (logouts (sockets w ! conn k))
          \<and> fst (srv_disconnect p e sw) = Message ''Disconnected successfully''
          \<and> srv_activeConnections (snd (srv_disconnect p e sw))
              = (srv_activeConnections sw)(normalize p := None)
          \<and> srv_dirs (snd (srv_disconnect p e sw))
              = (srv_dirs sw)(session_path (normalize p) := None)
          \<and> srv_ws_closes (srv_sockets (snd (srv_disconnect p e sw)) ! c)
              = Suc (srv_ws_closes (srv_sockets sw ! c)))"
proof (intro conjI impI)
  assume "logout_rejects e"
  then show "disconnect p e w = (ServerError (err_msg e) [], w)"
    and "srv_disconnect p e sw = (ServerError (err_msg e) [], sw)"
    using assms by (simp_all add: disconnect_def srv_disconnect_def)
next
  assume a: "\<not> logout_rejects e \<and> close_throws e"
  let ?r = "disconnect p e w" and ?s = "srv_disconnect p e sw"
  from a assms(1) have r: "?r = (ServerError (err_msg e) [],
      upd_socket (conn k) (\<lambda>s. s\<lparr>logouts := Suc (logouts s)\<rparr>) w)"
    by (simp add: disconnect_def)
  from a assms(3) have s: "?s = (ServerError (err_msg e) [],
      srv_upd_socket c (\<lambda>s. s\<lparr>srv_logouts := Suc (srv_logouts s)\<rparr>) sw)"
    by (simp add: srv_disconnect_def)
  show "fst ?r = ServerError (err_msg e) []" by (simp add: r)
  show "activeConnections (snd ?r) = activeConnections w" by (simp add: r)
  show "dirs (snd ?r) = dirs w" by (simp add: r)
  show "ws_closes (sockets (snd ?r) ! conn k) = ws_closes (sockets w ! conn k)"
    using assms(2) by (simp add: r upd_socket_nth)
  show "logouts (sockets (snd ?r) ! conn k) = Suc (logouts (sockets w ! conn k))"
    using assms(2) by (simp add: r upd_socket_nth)
  show "fst ?s = ServerError (err_msg e) []" by (simp add: s)
  show "srv_activeConnections (snd ?s) = srv_activeConnections sw"
    by (simp add: s srv_upd_socket_def)
  show "srv_dirs (snd ?s) = srv_dirs sw" by (simp add: s srv_upd_socket_def)
next
  assume a: "\<not> logout_rejects e \<and> \<not> close_throws e \<and> rm_throws e
     \<and> existsSync (sessionDir k) w"
  let ?r = "disconnect p e w"
  from a assms(1) have r: "?r = (ServerError (err_msg e) [],
      registry_delete (normalize p) (ws_close (conn k)
        (upd_socket (conn k) (\<lambda>s. s\<lparr>logouts := Suc (logouts s)\<rparr>) w)))"
    by (simp add: disconnect_def Let_def existsSync_def)
  show "fst ?r = ServerError (err_msg e) []" by (simp add: r)
  show "activeConnections (snd ?r) = (activeConnections w)(normalize p := None)" by (simp add: r)
  show "dirs (snd ?r) = dirs w" by (simp add: r)
  show "ws_closes (sockets (snd ?r) ! conn k) = Suc (ws_closes (sockets w ! conn k))"
    using assms(2) by (simp add: r ws_close_nth upd_socket_nth)
next
  assume a: "\<not> logout_rejects e \<and> \<not> close_throws e \<and> \<not> rm_throws e"
  let ?r = "disconnect p e w" and ?s = "srv_disconnect p e sw"
  let ?w2 = "registry_delete (normalize p) (ws_close (conn k)
        (upd_socket (conn k) (\<lambda>s. s\<lparr>logouts := Suc (logouts s)\<rparr>) w))"
  from a assms(1) have r: "?r = (Disconnected,
      if existsSync (sessionDir k) w then rmSync (sessionDir k) ?w2 else ?w2)"
    by (simp add: disconnect_def Let_def existsSync_def)
  show "fst ?r = Disconnected" by (simp add: r)
  show "activeConnections (snd ?r) = (activeConnections w)(normalize p := None)" by (simp add: r)
  show "dirs (snd ?r) = (dirs w)(sessionDir k := None)"
    by (auto simp: r existsSync_def)
  show "ws_closes (sockets (snd ?r) ! conn k) = Suc (ws_closes (sockets w ! conn k))"
    using assms(2) by (simp add: r ws_close_nth upd_socket_nth)
  show "logouts (sockets (snd ?r) ! conn k) = Suc (logouts (sockets w ! conn k))"
    using assms(2) by (simp add: r ws_close_nth upd_socket_nth)
  show "fst ?s = Message ''Disconnected successfully''"
    using a assms(3) by (simp add: srv_disconnect_def Let_def)
  show "srv_activeConnections (snd ?s) = (srv_activeConnections sw)(normalize p := None)"
    using a assms(3) by (simp add: srv_disconnect_def Let_def srv_upd_socket_def)
  show "srv_dirs (snd ?s) = (srv_dirs sw)(session_path (normalize p) := None)"
    using a assms(3) by (auto simp: srv_disconnect_def Let_def srv_upd_socket_def)
  show "srv_ws_closes (srv_sockets (snd ?s) ! c) = Suc (srv_ws_closes (srv_sockets sw ! c))"
    using a assms(3,4) by (simp add: srv_disconnect_def Let_def srv_upd_socket_def)
qed

text \<open>
  The logout of the Transport rejects: the response is the error, and the registry entry,
  the directory and the open socket are all still there.
\<close>

theorem disconnect_stops_at_first_failure_counterexample:
  "disconnect ''2348109860102'' (calm\<lparr>logout_rejects := True\<rparr>) paired_world
     = (ServerError ''boom'' [], paired_world)
   \<and> activeConnections paired_world ''2348109860102''
       = Some \<lparr>conn = 0, sessionDir = ''sessions/2348109860102'', timestamp = 1000\<rparr>
   \<and> dirs paired_world ''sessions/2348109860102'' = Some []
   \<and> ws_closes (sockets paired_world ! 0) = 0"
  by (simp add: disconnect_def Let_def paired_world_eq calm_def new_session_def)

text \<open>The theorem at a concrete run.\<close>

theorem disconnect_stops_at_first_failure_witness:
  "activeConnections paired_world (normalize ''2348109860102'')
     = Some \<lparr>conn = 0, sessionDir = ''sessions/2348109860102'', timestamp = 1000\<rparr>
   \<and> 0 < length (sockets paired_world)
   \<and> srv_activeConnections srv_paired_world (normalize ''2348109860102'') = Some 0
   \<and> 0 < length (srv_sockets srv_paired_world)
   \<and> fst (disconnect ''2348109860102'' calm paired_world) = Disconnected
   \<and> activeConnections (snd (disconnect ''2348109860102'' calm paired_world)) ''2348109860102'' = None
   \<and> dirs (snd (disconnect ''2348109860102'' calm paired_world)) ''sessions/2348109860102'' = None
   \<and> ws_closes (sockets (snd (disconnect ''2348109860102'' calm paired_world)) ! 0) = 1
   \<and> logouts (sockets (snd (disconnect ''2348109860102'' calm paired_world)) ! 0) = 1
   \<and> fst (srv_disconnect ''2348109860102'' calm srv_paired_world)
       = Message ''Disconnected successfully''
   \<and> srv_activeConnections (snd (srv_disconnect ''2348109860102'' calm srv_paired_world))
        ''2348109860102'' = None
   \<and> srv_dirs (snd (srv_disconnect ''2348109860102'' calm srv_paired_world))
        ''sessions/2348109860102'' = None
   \<and> close_throws (calm\<lparr>close_throws := True\<rparr>)
   \<and> fst (disconnect ''2348109860102'' (calm\<lparr>close_throws := True\<rparr>) paired_world)
       = ServerError ''boom'' []
   \<and> activeConnections (snd (disconnect ''2348109860102'' (calm\<lparr>close_throws := True\<rparr>)
        paired_world)) = activeConnections paired_world
   \<and> logouts (sockets (snd (disconnect ''2348109860102'' (calm\<lparr>close_throws := True\<rparr>)
        paired_world)) ! 0) = 1"
proof -
  have h1: "activeConnections paired_world (normalize ''2348109860102'')
     = Some \<lparr>conn = 0, sessionDir = ''sessions/2348109860102'', timestamp = 1000\<rparr>"
    by (simp add: paired_world_eq)
  have h2: "conn \<lparr>conn = 0, sessionDir = ''sessions/2348109860102'', timestamp = 1000\<rparr>
      < length (sockets paired_world)" by simp
  have h3: "srv_activeConnections srv_paired_world (normalize ''2348109860102'') = Some 0"
    by (simp add: srv_paired_world_eq)
  have h4: "0 < length (srv_sockets srv_paired_world)" by (simp add: srv_paired_world_eq)
  have z: "logouts (sockets paired_world ! 0) = 0" "ws_closes (sockets paired_world ! 0) = 0"
    by (simp_all add: new_session_def)
  have q: "\<not> logout_rejects calm \<and> \<not> close_throws calm \<and> \<not> rm_throws calm"
    by (simp add: calm_def)
  have q': "\<not> logout_rejects (calm\<lparr>close_throws := True\<rparr>) \<and> close_throws (calm\<lparr>close_throws := True\<rparr>)"
    by (simp add: calm_def)
  have m: "err_msg (calm\<lparr>close_throws := True\<rparr>) = ''boom''" by (simp add: calm_def)
  note a = disconnect_stops_at_first_failure [OF h1 h2 h3 h4, of calm]
  note b = disconnect_stops_at_first_failure [OF h1 h2 h3 h4, of "calm\<lparr>close_throws := True\<rparr>"]
  from a q z have a': "fst (disconnect ''2348109860102'' calm paired_world) = Disconnected
   \<and> activeConnections (snd (disconnect ''2348109860102'' calm paired_world)) ''2348109860102'' = None
   \<and> dirs (snd (disconnect ''2348109860102'' calm paired_world)) ''sessions/2348109860102'' = None
   \<and> ws_closes (sockets (snd (disconnect ''2348109860102'' calm paired_world)) ! 0) = 1
   \<and> logouts (sockets (snd (disconnect ''2348109860102'' calm paired_world)) ! 0) = 1
   \<and> fst (srv_disconnect ''2348109860102'' calm srv_paired_world)
       = Message ''Disconnected successfully''
   \<and> srv_activeConnections (snd (srv_disconnect ''2348109860102'' calm srv_paired_world))
        ''2348109860102'' = None
   \<and> srv_dirs (snd (srv_disconnect ''2348109860102'' calm srv_paired_world))
        ''sessions/2348109860102'' = None"
    by (simp add: session_path_def)
  from b q' z m have b': "fst (disconnect ''2348109860102'' (calm\<lparr>close_throws := True\<rparr>) paired_world)
       = ServerError ''boom'' []
   \<and> activeConnections (snd (disconnect ''2348109860102'' (calm\<lparr>close_throws := True\<rparr>)
        paired_world)) = activeConnections paired_world
   \<and> logouts (sockets (snd (disconnect ''2348109860102'' (calm\<lparr>close_throws := True\<rparr>)
        paired_world)) ! 0) = 1"
    by simp
  from h1 h2 h3 h4 a' b' q' show ?thesis by simp
qed

subsection \<open>C8\<close>

text \<open>
  Claim C8 (as the code has it). Once a registration request for an identity has stored
  its session, and as long as no turn is a terminal close event on a socket of that
  identity, a disconnect request for it, or the failure of a registration request for it,
  the status request finds the registry entry and reports \<^verbatim>\<open>connected\<close> true exactly when
  the socket's \<^verbatim>\<open>readyState\<close> is 1, the state \<^verbatim>\<open>open\<close> when connected and \<^verbatim>\<open>closed\<close>
  otherwise, the creation timestamp and the uptime. In server.js a registered identity is
  reported with \<^verbatim>\<open>connected\<close> true and the state \<^verbatim>\<open>open\<close> or \<^verbatim>\<open>closed\<close>. The reported
  state is never one of Connecting and Paired.
\<close>

theorem status_found_while_registered:
  assumes "fst (pair_start (JStr raw) e0 w) = Awaiting c"
    and "quiet R (normalize raw) tr (snd (pair_start (JStr raw) e0 w))"
    and "normalize p = normalize raw"
  shows "activeConnections (run R tr (snd (pair_start (JStr raw) e0 w))) (normalize raw) \<noteq> None
       \<and> status p e (run R tr (snd (pair_start (JStr raw) e0 w)))
           = StatusFound (readyState e = 1) (if readyState e = 1 then ''open'' else ''closed'')
               (timestamp (the (activeConnections (run R tr (snd (pair_start (JStr raw) e0 w)))
                  (normalize raw))))
               (now e - timestamp (the (activeConnections
                  (run R tr (snd (pair_start (JStr raw) e0 w))) (normalize raw))))
       \<and> (srv_activeConnections sw (normalize p) \<noteq> None \<longrightarrow>
            srv_status p e sw
              = SrvStatus True (Some (if readyState e = 1 then ''open'' else ''closed'')))"
proof -
  from registry_run [OF pair_start_registers [OF assms(1)] assms(2)]
  obtain k where "activeConnections (run R tr (snd (pair_start (JStr raw) e0 w))) (normalize raw) = Some k"
    by blast
  then show ?thesis using assms(3) by (auto simp: status_def srv_status_def Let_def)
qed

text \<open>
  The registration has returned its code, the Transport has then closed with status 515,
  and the status request reports the state \<^verbatim>\<open>closed\<close>.
\<close>

theorem status_found_while_registered_counterexample:
  "registration_reply = Some (PairingCode (Some ''ABC-123'') ''2348109860102'', coded_world)
   \<and> terminal baileys (statusCode (closed_with 515)) = False
   \<and> status ''2348109860102'' (calm\<lparr>readyState := 3\<rparr>) restart_world
       = StatusFound False ''closed'' 1000 0"
  by (simp add: restart_world_def coded_world_def registration_reply_eq terminal_def baileys_def
      closed_with_def connection_update_def Let_def wants_pairing_def state_branch_def
      status_def paired_world_eq calm_def)

text \<open>The theorem at a concrete run.\<close>

theorem status_found_while_registered_witness:
  "fst (pair_start (JStr ''+234 810 986 0102'') calm init_world) = Awaiting 0
   \<and> quiet baileys (normalize ''+234 810 986 0102'') restart_trace
        (snd (pair_start (JStr ''+234 810 986 0102'') calm init_world))
   \<and> normalize ''2348109860102'' = normalize ''+234 810 986 0102''
   \<and> status ''2348109860102'' (calm\<lparr>readyState := 3, now := 5000\<rparr>)
        (run baileys restart_trace (snd (pair_start (JStr ''+234 810 986 0102'') calm init_world)))
       = StatusFound False ''closed'' 1000 4000
   \<and> srv_activeConnections srv_paired_world (normalize ''2348109860102'') \<noteq> None
   \<and> srv_status ''2348109860102'' (calm\<lparr>readyState := 3, now := 5000\<rparr>) srv_paired_world
       = SrvStatus True (Some ''closed'')"
proof -
  have h1: "fst (pair_start (JStr ''+234 810 986 0102'') calm init_world) = Awaiting 0"
    by (simp add: pair_start_def Let_def calm_def init_world_def existsSync_def mkdirSync_def)
  have h2: "quiet baileys (normalize ''+234 810 986 0102'') restart_trace
        (snd (pair_start (JStr ''+234 810 986 0102'') calm init_world))"
  proof -
    have cc: "connection connecting = Some Connecting" by (simp add: connecting_def)
    have nt: "\<not> terminal baileys (statusCode (closed_with 515))"
      by (simp add: terminal_def baileys_def closed_with_def)
    show ?thesis unfolding paired_world_def [symmetric]
      by (simp add: restart_trace_def connecting_world_eq fails_def cc nt new_session_def)
  qed
  have h3: "normalize ''2348109860102'' = normalize ''+234 810 986 0102''" by simp
  have v: "srv_activeConnections srv_paired_world (normalize ''2348109860102'') \<noteq> None"
    by (simp add: srv_paired_world_eq)
  from status_found_while_registered [OF h1 h2 h3,
      where e = "calm\<lparr>readyState := 3, now := 5000\<rparr>" and sw = srv_paired_world] v
  have "status ''2348109860102'' (calm\<lparr>readyState := 3, now := 5000\<rparr>)
        (run baileys restart_trace (snd (pair_start (JStr ''+234 810 986 0102'') calm init_world)))
       = StatusFound False ''closed'' 1000 4000
     \<and> srv_status ''2348109860102'' (calm\<lparr>readyState := 3, now := 5000\<rparr>) srv_paired_world
       = SrvStatus True (Some ''closed'')"
    unfolding paired_world_def [symmetric]
    by (simp add: restart_world_run restart_world_registry)
  with h1 h2 h3 v show ?thesis by blast
qed

subsection \<open>C9\<close>

text \<open>
  Claim C9. A disconnect request for an identity with no registry entry is answered with
  \<^verbatim>\<open>No active connection found\<close> and leaves the whole world unchanged. Both versions
  behave so.
\<close>

theorem disconnect_without_session:
  "(activeConnections w (normalize p) = None \<longrightarrow>
      disconnect p e w = (Message ''No active connection found'', w))
   \<and> (srv_activeConnections sw (normalize p) = None \<longrightarrow>
      srv_disconnect p e sw = (Message ''No active connection found'', sw))"
  by (simp add: disconnect_def srv_disconnect_def)

text \<open>The theorem at a concrete run.\<close>

theorem disconnect_without_session_witness:
  "activeConnections paired_world (normalize ''15550001111'') = None
   \<and> disconnect ''15550001111'' calm paired_world
        = (Message ''No active connection found'', paired_world)
   \<and> srv_activeConnections srv_paired_world (normalize ''15550001111'') = None
   \<and> srv_disconnect ''15550001111'' calm srv_paired_world
        = (Message ''No active connection found'', srv_paired_world)"
proof -
  have h1: "activeConnections paired_world (normalize ''15550001111'') = None"
    by (simp add: paired_world_eq)
  have h2: "srv_activeConnections srv_paired_world (normalize ''15550001111'') = None"
    by (simp add: srv_paired_world_eq)
  from disconnect_without_session [of paired_world "''15550001111''" calm srv_paired_world] h1 h2
  show ?thesis by blast
qed

subsection \<open>C10\<close>

text \<open>
  Claim C10. An event handled while the credentials are registered makes no pairing
  request and leaves the latch as it was; a call is made only by an event that finds them
  not registered; and along any sequence of turns in which every event of socket \<open>c\<close>
  finds them registered, the number of calls made on \<open>c\<close> does not change.
\<close>

theorem registered_session_never_requests:
  assumes "c < length (sockets w)"
  shows "(registered e \<longrightarrow>
            requests (sockets (connection_update R c u e w) ! c) = requests (sockets w ! c)
          \<and> pairingCodeRequested (sockets (connection_update R c u e w) ! c)
              = pairingCodeRequested (sockets w ! c))
       \<and> (requests (sockets (connection_update R c u e w) ! c) \<noteq> requests (sockets w ! c)
            \<longrightarrow> \<not> registered e)
       \<and> (restored c tr \<longrightarrow> requests (sockets (run R tr w) ! c) = requests (sockets w ! c))"
  using assms
  by (auto simp: connection_update_requests connection_update_latch wants_pairing_def
      requests_run_restored)

text \<open>The theorem at a concrete run.\<close>

theorem registered_session_never_requests_witness:
  "0 < length (sockets paired_world)
   \<and> registered (calm\<lparr>registered := True\<rparr>)
   \<and> requests (sockets (connection_update baileys 0 connecting (calm\<lparr>registered := True\<rparr>)
        paired_world) ! 0) = 0
   \<and> pairingCodeRequested (sockets (connection_update baileys 0 connecting
        (calm\<lparr>registered := True\<rparr>) paired_world) ! 0) = False
   \<and> restored 0 [(ConnectionUpdate 0 connecting, calm\<lparr>registered := True\<rparr>),
                  (ConnectionUpdate 0 qr_shown, calm\<lparr>registered := True\<rparr>)]
   \<and> requests (sockets (run baileys
        [(ConnectionUpdate 0 connecting, calm\<lparr>registered := True\<rparr>),
         (ConnectionUpdate 0 qr_shown, calm\<lparr>registered := True\<rparr>)] paired_world) ! 0) = 0
   \<and> requests (sockets (connection_update baileys 0 connecting calm paired_world) ! 0)
       \<noteq> requests (sockets paired_world ! 0)
   \<and> \<not> registered calm"
proof -
  let ?e = "calm\<lparr>registered := True\<rparr>"
  let ?tr = "[(ConnectionUpdate 0 connecting, ?e), (ConnectionUpdate 0 qr_shown, ?e)]"
  have h: "0 < length (sockets paired_world)" by simp
  have r: "registered ?e" by simp
  have t: "restored 0 ?tr" by simp
  have z: "requests (sockets paired_world ! 0) = 0" "pairingCodeRequested (sockets paired_world ! 0) = False"
    by (simp_all add: new_session_def)
  have d: "requests (sockets (connection_update baileys 0 connecting calm paired_world) ! 0)
       \<noteq> requests (sockets paired_world ! 0)"
    by (simp add: connection_update_requests wants_pairing_def connecting_def calm_def new_session_def)
  note a = registered_session_never_requests [OF h, where e = ?e and u = connecting and R = baileys
      and tr = ?tr]
  note b = registered_session_never_requests [OF h, where e = calm and u = connecting and R = baileys
      and tr = "[]"]
  from a r t z have a': "requests (sockets (connection_update baileys 0 connecting ?e paired_world) ! 0) = 0
   \<and> pairingCodeRequested (sockets (connection_update baileys 0 connecting ?e paired_world) ! 0) = False
   \<and> requests (sockets (run baileys ?tr paired_world) ! 0) = 0"
    by simp
  from b d have b': "\<not> registered calm" by blast
  from h r t a' d b' show ?thesis by blast
qed

end
